theory Spec2Isabelle
  imports Complex_Main "HOL-Library.AList"
begin

section \<open>JavaScript values and built-ins used by server.js\<close>

text \<open>
  Strings are byte lists: the UTF-8 encoding of the JavaScript string, an unpaired
  surrogate (which UTF-8 proper cannot hold) being written in its three-byte generalised
  form \<open>ED A0..BF xx\<close>. Every character the server compares against (braces, comma, white
  space, letters) is ASCII, so these tests read the same on bytes as on UTF-16 code units.

  A value parsed from JSON is a \<open>json\<close>; a value that may be \<open>undefined\<close> is a
  \<open>json option\<close> with \<open>None\<close> for \<open>undefined\<close>. A JSON number is kept as the text
  \<open>String(n)\<close> renders it with (\<open>0\<close> for both zeros), which is all the server ever does
  with one: test its truthiness and splice it into a string. An object is the list of its
  own properties in insertion order; \<open>JSON.parse\<close> delivers distinct keys.
\<close>

datatype json =
    JNull
  | JBool bool
  | JNum string
  | JStr string
  | JArr "json list"
  | JObj "(string \<times> json) list"

datatype js_error = TypeError | URIError

fun truthy :: "json \<Rightarrow> bool" where
  "truthy JNull = False"
| "truthy (JBool b) = b"
| "truthy (JNum r) = (r \<noteq> ''0'' \<and> r \<noteq> ''NaN'')"
| "truthy (JStr s) = (s \<noteq> [])"
| "truthy (JArr xs) = True"
| "truthy (JObj kvs) = True"

definition truthy_opt :: "json option \<Rightarrow> bool" where
  "truthy_opt v = (case v of None \<Rightarrow> False | Some j \<Rightarrow> truthy j)"

text \<open>
  Property read \<open>v.k\<close> for the names the server reads (\<open>images\<close>, \<open>itinerary\<close>,
  \<open>summary\<close>, \<open>role\<close>, \<open>content\<close>): none of them is on a prototype, so only an object's
  own property is found; on \<open>null\<close> the read throws.
\<close>

fun get_prop :: "json \<Rightarrow> string \<Rightarrow> js_error + json option" where
  "get_prop JNull k = Inl TypeError"
| "get_prop (JObj kvs) k = Inr (map_of kvs k)"
| "get_prop v k = Inr None"

text \<open>Optional chaining \<open>v?.k\<close>: \<open>undefined\<close> on \<open>null\<close> and \<open>undefined\<close>.\<close>

definition get_prop_opt :: "json option \<Rightarrow> string \<Rightarrow> json option" where
  "get_prop_opt v k = (case v of None \<Rightarrow> None | Some j \<Rightarrow> (case get_prop j k of Inl e \<Rightarrow> None | Inr r \<Rightarrow> r))"

text \<open>
  \<open>Array.prototype.join\<close> over the already converted elements, and \<open>ToString\<close>. A
  plain object converts through \<open>Object.prototype.toString\<close>; when it has an own
  property \<open>toString\<close> (never callable in JSON) the conversion throws.
\<close>

fun js_join :: "string option list \<Rightarrow> string option" where
  "js_join [] = Some []"
| "js_join [x] = x"
| "js_join (x # y # ys) =
     (case x of None \<Rightarrow> None
      | Some s \<Rightarrow> (case js_join (y # ys) of None \<Rightarrow> None | Some t \<Rightarrow> Some (s @ '','' @ t)))"

fun js_String :: "json \<Rightarrow> string option" where
  "js_String JNull = Some ''null''"
| "js_String (JBool b) = Some (if b then ''true'' else ''false'')"
| "js_String (JNum r) = Some r"
| "js_String (JStr s) = Some s"
| "js_String (JArr xs) = js_join (map (\<lambda>x. if x = JNull then Some [] else js_String x) xs)"
| "js_String (JObj kvs) = (if ''toString'' \<in> fst ` set kvs then None else Some ''[object Object]'')"

text \<open>
  \<open>String.prototype.trim\<close>, \<open>toLowerCase\<close> and \<open>toUpperCase\<close> on the ASCII range
  (other bytes are left as they are), \<open>s.split(",")[0]\<close> and \<open>s.slice(a, b)\<close> for
  \<open>0 \<le> a \<le> b\<close>.
\<close>

definition is_ws :: "char \<Rightarrow> bool" where
  "is_ws c = (c \<in> set [CHR 0x09, CHR 0x0A, CHR 0x0B, CHR 0x0C, CHR 0x0D, CHR 0x20])"

definition js_trim :: "string \<Rightarrow> string" where
  "js_trim s = rev (dropWhile is_ws (rev (dropWhile is_ws s)))"

definition lower_char :: "char \<Rightarrow> char" where
  "lower_char c =
     (case map_of (zip ''ABCDEFGHIJKLMNOPQRSTUVWXYZ'' ''abcdefghijklmnopqrstuvwxyz'') c of
        None \<Rightarrow> c | Some d \<Rightarrow> d)"

definition upper_char :: "char \<Rightarrow> char" where
  "upper_char c =
     (case map_of (zip ''abcdefghijklmnopqrstuvwxyz'' ''ABCDEFGHIJKLMNOPQRSTUVWXYZ'') c of
        None \<Rightarrow> c | Some d \<Rightarrow> d)"

definition toLowerCase :: "string \<Rightarrow> string" where
  "toLowerCase s = map lower_char s"

definition toUpperCase :: "string \<Rightarrow> string" where
  "toUpperCase s = map upper_char s"

definition split_comma_first :: "string \<Rightarrow> string" where
  "split_comma_first s = takeWhile (\<lambda>c. c \<noteq> CHR '','') s"

definition str_slice :: "nat \<Rightarrow> nat \<Rightarrow> string \<Rightarrow> string" where
  "str_slice a b s = take (b - a) (drop a s)"

text \<open>
  \<open>encodeURIComponent\<close>: every byte outside the unreserved set becomes \<open>%XX\<close>; an
  unpaired surrogate throws \<open>URIError\<close>.
\<close>

definition unreserved :: "char \<Rightarrow> bool" where
  "unreserved c =
     (let n = (of_char c :: nat) in
        (65 \<le> n \<and> n \<le> 90) \<or> (97 \<le> n \<and> n \<le> 122) \<or> (48 \<le> n \<and> n \<le> 57)
        \<or> c \<in> set [CHR ''-'', CHR ''_'', CHR ''.'', CHR ''!'', CHR ''~'', CHR ''*'', CHR 0x27, CHR ''('', CHR '')''])"

definition hex_digit :: "nat \<Rightarrow> char" where
  "hex_digit n = ''0123456789ABCDEF'' ! (n mod 16)"

definition pct :: "char \<Rightarrow> string" where
  "pct c = [CHR ''%'', hex_digit ((of_char c :: nat) div 16), hex_digit (of_char c)]"

fun lone_surrogate :: "string \<Rightarrow> bool" where
  "lone_surrogate (c # d # cs) = ((c = CHR 0xED \<and> 160 \<le> (of_char d :: nat)) \<or> lone_surrogate (d # cs))"
| "lone_surrogate cs = False"

definition encodeURIComponent :: "string \<Rightarrow> js_error + string" where
  "encodeURIComponent s =
     (if lone_surrogate s then Inl URIError
      else Inr (concat (map (\<lambda>c. if unreserved c then [c] else pct c) s)))"

text \<open>
  Numbers of the history endpoint: \<open>NaN\<close> or an exact rational. The model does not round
  to doubles, which differs from JavaScript only beyond \<open>2^53\<close>. \<open>x / 0\<close> (an infinity in
  JavaScript) is given as \<open>NaN\<close>; the server never divides by zero (lemma
  \<open>effective_limit_cases\<close>).
\<close>

datatype jsnum = NaN | Num rat

fun Math_max :: "jsnum \<Rightarrow> jsnum \<Rightarrow> jsnum" where
  "Math_max (Num a) (Num b) = Num (max a b)"
| "Math_max x y = NaN"

fun Math_min :: "jsnum \<Rightarrow> jsnum \<Rightarrow> jsnum" where
  "Math_min (Num a) (Num b) = Num (min a b)"
| "Math_min x y = NaN"

fun Math_ceil :: "jsnum \<Rightarrow> jsnum" where
  "Math_ceil (Num a) = Num (of_int \<lceil>a\<rceil>)"
| "Math_ceil NaN = NaN"

fun js_add :: "jsnum \<Rightarrow> jsnum \<Rightarrow> jsnum" where
  "js_add (Num a) (Num b) = Num (a + b)"
| "js_add x y = NaN"

fun js_sub :: "jsnum \<Rightarrow> jsnum \<Rightarrow> jsnum" where
  "js_sub (Num a) (Num b) = Num (a - b)"
| "js_sub x y = NaN"

fun js_mul :: "jsnum \<Rightarrow> jsnum \<Rightarrow> jsnum" where
  "js_mul (Num a) (Num b) = Num (a * b)"
| "js_mul x y = NaN"

fun js_div :: "jsnum \<Rightarrow> jsnum \<Rightarrow> jsnum" where
  "js_div (Num a) (Num b) = (if b = 0 then NaN else Num (a / b))"
| "js_div x y = NaN"

text \<open>
  \<open>parseInt(s)\<close> with no radix: leading white space is skipped, a sign is read, a
  \<open>0x\<close> prefix selects base 16, and the longest run of digits is the value; with no digit
  the result is \<open>NaN\<close>.
\<close>

definition digit_val :: "char \<Rightarrow> nat option" where
  "digit_val c =
     (let n = (of_char c :: nat) in
        if 48 \<le> n \<and> n \<le> 57 then Some (n - 48)
        else if 97 \<le> n \<and> n \<le> 102 then Some (n - 87)
        else if 65 \<le> n \<and> n \<le> 70 then Some (n - 55)
        else None)"

definition is_digit :: "nat \<Rightarrow> char \<Rightarrow> bool" where
  "is_digit R c = (case digit_val c of None \<Rightarrow> False | Some d \<Rightarrow> d < R)"

definition digits_value :: "nat \<Rightarrow> string \<Rightarrow> nat" where
  "digits_value R ds = foldl (\<lambda>a c. a * R + the (digit_val c)) 0 ds"

definition parse_digits :: "nat \<Rightarrow> string \<Rightarrow> nat option" where
  "parse_digits R s =
     (let ds = takeWhile (is_digit R) s in if ds = [] then None else Some (digits_value R ds))"

definition parseInt :: "string \<Rightarrow> jsnum" where
  "parseInt s =
     (let s1 = dropWhile is_ws s;
          neg = (s1 \<noteq> [] \<and> hd s1 = CHR ''-'');
          s2 = (if s1 \<noteq> [] \<and> (hd s1 = CHR ''-'' \<or> hd s1 = CHR ''+'') then tl s1 else s1);
          hex = (take 2 s2 = ''0x'' \<or> take 2 s2 = ''0X'');
          r = (if hex then parse_digits 16 (drop 2 s2) else parse_digits 10 s2)
      in case r of None \<Rightarrow> NaN
         | Some n \<Rightarrow> Num (if neg then - of_nat n else of_nat n))"

text \<open>
  \<open>Array.prototype.slice(start, end)\<close>: each index is truncated to an integer
  (\<open>NaN\<close> to 0), a negative one counts from the end, and both are clipped to the array.
\<close>

definition truncate_rat :: "rat \<Rightarrow> int" where
  "truncate_rat r = (if r < 0 then \<lceil>r\<rceil> else \<lfloor>r\<rfloor>)"

definition to_integer :: "jsnum \<Rightarrow> int" where
  "to_integer x = (case x of NaN \<Rightarrow> 0 | Num r \<Rightarrow> truncate_rat r)"

definition rel_index :: "int \<Rightarrow> nat \<Rightarrow> nat" where
  "rel_index k len = (if k < 0 then nat (max (int len + k) 0) else min (nat k) len)"

definition array_slice :: "jsnum \<Rightarrow> jsnum \<Rightarrow> 'a list \<Rightarrow> 'a list" where
  "array_slice start fin xs =
     (let k = rel_index (to_integer start) (length xs);
          f = rel_index (to_integer fin) (length xs)
      in take (f - k) (drop k xs))"

text \<open>
  \<open>n.toString(36)\<close> for a non-negative integer \<open>n\<close> (what \<open>Date.now()\<close> returns).
\<close>

definition digit36 :: "nat \<Rightarrow> char" where
  "digit36 d = ''0123456789abcdefghijklmnopqrstuvwxyz'' ! d"

fun toString36 :: "nat \<Rightarrow> string" where
  "toString36 n = (if n < 36 then [digit36 n] else toString36 (n div 36) @ [digit36 (n mod 36)])"

section \<open>Data model\<close>

text \<open>
  A history entry as both flows build it. Its \<open>request\<close> is
  \<open>{destination, days, budget, interests, group}\<close> from the plan flow (each possibly
  \<open>undefined\<close>) or \<open>{chat: true, group, snippet}\<close> from the chat flow. \<open>timestamp\<close> and the caches' \<open>date\<close> hold the
  text \<open>toISOString()\<close> gives for an instant; the model keeps the instant itself
  (milliseconds since the epoch), which that text determines and is determined by.
\<close>

datatype request_rec =
    PlanRequest "json option" "json option" "json option" "json option" "json option"
  | ChatRequest "json option" string

record entry =
  entry_id :: string
  userHash :: string
  timestamp :: nat
  request :: request_rec
  response :: json

datatype item = Item (name: string) (tag: string)

record banner_cache =
  banner_date :: "nat option"
  banner_text :: "string option"

record trending_cache =
  trending_date :: "nat option"
  trending_list :: "item list option"

text \<open>One call of \<open>openai.chat.completions.create\<close> and what the handler reads from it.\<close>

record model_call =
  model :: string
  messages :: "(json option \<times> string) list"
  temperature :: rat
  max_tokens :: nat

datatype completion = Throws | Content "string option"

text \<open>
  The server's state: the file \<open>data/history.json\<close> (\<open>None\<close> when it cannot be read or
  parsed), the two module-level caches, and two logs the model adds to make effects
  visible: every call sent to the model provider and every array handed to
  \<open>writeHistory\<close>, oldest first.
\<close>

record state =
  history_file :: "entry list option"
  bannerCache :: banner_cache
  trendingCache :: trending_cache
  model_calls :: "model_call list"
  writes :: "entry list list"

text \<open>
  Everything a handler reads from outside the file: the libraries (\<open>xss\<close>,
  \<open>JSON.parse\<close>, SHA-256 in hex), the model provider, the two environment variables, the
  clock readings (\<open>Date.now()\<close>, \<open>new Date()\<close>, local midnight of the current day), the text
  \<open>Math.random().toString(36)\<close>, and whether \<open>fs.writeFileSync\<close> succeeds.
\<close>

record env =
  xss :: "string \<Rightarrow> string"
  JSON_parse :: "string \<Rightarrow> json option"
  sha256_hex :: "string \<Rightarrow> string"
  openai :: "model_call \<Rightarrow> completion"
  FORM_MODEL :: "string option"
  CHAT_MODEL :: "string option"
  Date_now :: nat
  new_Date :: nat
  start_of_day :: nat
  random36 :: string
  write_ok :: bool

text \<open>
  A request as Express hands it over: \<open>req.body\<close> is the JSON object the body parser
  produced, as the list of its properties in order (the empty object when the request had
  no JSON body); the query parameters are strings or absent.
\<close>

record req =
  body :: "(string \<times> json) list"
  x_forwarded_for :: "string option"
  remoteAddress :: "string option"
  query_page :: "string option"
  query_limit :: "string option"
  params_id :: string

datatype payload =
    Error string
  | ErrorRaw string string
  | Plan json
  | Chat string json
  | HistoryPage jsnum jsnum nat "entry list"
  | Success
  | Results "item list"
  | Banner string

type_synonym http_response = "nat \<times> payload"

section \<open>Helpers of server.js\<close>

definition readHistory :: "state \<Rightarrow> entry list" where
  "readHistory s = (case history_file s of None \<Rightarrow> [] | Some arr \<Rightarrow> arr)"

definition writeHistory :: "env \<Rightarrow> entry list \<Rightarrow> state \<Rightarrow> state" where
  "writeHistory E arr s =
     (let s1 = s\<lparr>writes := writes s @ [arr]\<rparr>
      in if write_ok E then s1\<lparr>history_file := Some arr\<rparr> else s1)"

definition hashIp :: "env \<Rightarrow> string option \<Rightarrow> string" where
  "hashIp E ip = sha256_hex E (case ip of None \<Rightarrow> ''unknown'' | Some a \<Rightarrow> if a = [] then ''unknown'' else a)"

definition getClientIp :: "req \<Rightarrow> string option" where
  "getClientIp r =
     (case x_forwarded_for r of
        None \<Rightarrow> remoteAddress r
      | Some forwarded \<Rightarrow>
          if forwarded \<noteq> [] then Some (js_trim (split_comma_first forwarded)) else remoteAddress r)"

definition startOfDayString :: "env \<Rightarrow> nat" where
  "startOfDayString E = start_of_day E"

text \<open>\<open>Date.now().toString(36) + "-" + Math.random().toString(36).slice(2,8)\<close>\<close>

definition new_id :: "env \<Rightarrow> string" where
  "new_id E = toString36 (Date_now E) @ ''-'' @ str_slice 2 8 (random36 E)"

text \<open>\<open>process.env.X || d\<close>\<close>

definition env_or :: "string option \<Rightarrow> string \<Rightarrow> string" where
  "env_or v d = (case v of None \<Rightarrow> d | Some x \<Rightarrow> if x = [] then d else x)"

definition call_model :: "env \<Rightarrow> model_call \<Rightarrow> state \<Rightarrow> completion \<times> state" where
  "call_model E c s = (openai E c, s\<lparr>model_calls := model_calls s @ [c]\<rparr>)"

definition internal_error :: http_response where
  "internal_error = (500, Error ''Internal server error'')"

text \<open>
  String conversion where the server splices a value into text: \<open>undefined\<close> reads
  \<open>undefined\<close>, and a failed conversion is a thrown \<open>TypeError\<close>.
\<close>

definition to_text :: "json option \<Rightarrow> js_error + string" where
  "to_text v =
     (case v of None \<Rightarrow> Inr ''undefined''
      | Some j \<Rightarrow> (case js_String j of None \<Rightarrow> Inl TypeError | Some t \<Rightarrow> Inr t))"

text \<open>\<open>v ? pre + v + post : ""\<close>\<close>

definition opt_part :: "string \<Rightarrow> json option \<Rightarrow> string \<Rightarrow> js_error + string" where
  "opt_part pre v post =
     (if truthy_opt v then (case to_text v of Inl e \<Rightarrow> Inl e | Inr t \<Rightarrow> Inr (pre @ t @ post))
      else Inr [])"

section \<open>POST /api/plan\<close>

definition allowed :: "string list" where
  "allowed = [''destination'', ''days'', ''budget'', ''interests'', ''group'']"

text \<open>
  The sanitising loop: every string property of the body is replaced by
  \<open>xss(value.trim())\<close>, the others are left alone.
\<close>

definition sanitize_body :: "env \<Rightarrow> (string \<times> json) list \<Rightarrow> (string \<times> json) list" where
  "sanitize_body E b =
     map (\<lambda>(k, v). (k, case v of JStr t \<Rightarrow> JStr (xss E (js_trim t)) | _ \<Rightarrow> v)) b"

definition nl :: string where
  "nl = [CHR 0x0A]"

definition prompt_head :: string where
  \<open>prompt_head =
     ''Eres un asistente que crea itinerarios concisos en espa'' @ [CHR 0xC3, CHR 0xB1] @ ''ol.'' @ nl @
     ''Genera un itinerario en JSON para un viaje a "''\<close>

definition prompt_tail :: string where
  \<open>prompt_tail =
     ''.'' @ nl @
     ''Salida JSON:'' @ nl @
     ''{'' @ nl @
     ''  "summary": "texto corto",'' @ nl @
     ''  "itinerary": ['' @ nl @
     ''    {"day": 1, "date": "YYYY-MM-DD", "summary":"", "activities":[ {"time":"Ma''
       @ [CHR 0xC3, CHR 0xB1] @ ''ana","title":"","desc":""} ] }'' @ nl @
     ''  ]'' @ nl @
     ''}'' @ nl @
     ''Incluye adem'' @ [CHR 0xC3, CHR 0xA1] @ ''s una propiedad "images" con una lista de URLs relevantes (usa Unsplash pattern). Responde SOLO con JSON v''
       @ [CHR 0xC3, CHR 0xA1] @ ''lido.''\<close>

definition plan_prompt ::
  "json option \<Rightarrow> json option \<Rightarrow> json option \<Rightarrow> json option \<Rightarrow> json option \<Rightarrow> js_error + string" where
  \<open>plan_prompt destination days grp budget interests =
     (case to_text destination of Inl e \<Rightarrow> Inl e | Inr d \<Rightarrow>
      case opt_part '' de '' days ('' d'' @ [CHR 0xC3, CHR 0xAD] @ ''as'') of Inl e \<Rightarrow> Inl e | Inr p1 \<Rightarrow>
      case opt_part '' pensado para '' grp [] of Inl e \<Rightarrow> Inl e | Inr p2 \<Rightarrow>
      case opt_part '' con presupuesto: '' budget [] of Inl e \<Rightarrow> Inl e | Inr p3 \<Rightarrow>
      case opt_part '' centrado en: '' interests [] of Inl e \<Rightarrow> Inl e | Inr p4 \<Rightarrow>
        Inr (prompt_head @ d @ ''"'' @ p1 @ p2 @ p3 @ p4 @ prompt_tail))\<close>

text \<open>
  \<open>text.match(/\{[\s\S]*\}$/)\<close>: start positions are tried from the left; at an opening
  brace the greedy body runs to the last character, which must be a closing brace, so the
  match, if any, is the rest of the text from the first opening brace.
\<close>

fun regex_match :: "string \<Rightarrow> string option" where
  "regex_match [] = None"
| "regex_match (c # cs) =
     (if c = CHR ''{'' \<and> cs \<noteq> [] \<and> last cs = CHR ''}'' then Some (c # cs) else regex_match cs)"

definition not_valid_json :: "string \<Rightarrow> http_response" where
  "not_valid_json raw = (500, ErrorRaw ''Model output not valid JSON'' raw)"

definition plan_parse :: "env \<Rightarrow> string \<Rightarrow> http_response + json" where
  "plan_parse E t =
     (case JSON_parse E t of
        Some parsed \<Rightarrow> Inr parsed
      | None \<Rightarrow>
          (case regex_match t of
             Some m \<Rightarrow> (case JSON_parse E m of Some parsed \<Rightarrow> Inr parsed | None \<Rightarrow> Inl (not_valid_json t))
           | None \<Rightarrow> Inl (not_valid_json t)))"

text \<open>
  The test \<open>!parsed.images || !Array.isArray(parsed.images) || parsed.images.length === 0\<close>
  on the value read, and the assignment \<open>parsed.images = ...\<close>: an own property of an
  object is replaced in place or added last; a property put on an array is not an element,
  so \<open>JSON.stringify\<close> (the response and the history file) shows the array as it was; on a
  primitive the assignment throws, the file being an ES module and so strict code.
\<close>

definition needs_default :: "json option \<Rightarrow> bool" where
  "needs_default v = (case v of Some (JArr (x # xs)) \<Rightarrow> False | _ \<Rightarrow> True)"

fun set_prop :: "json \<Rightarrow> string \<Rightarrow> json \<Rightarrow> js_error + json" where
  "set_prop (JObj kvs) k v = Inr (JObj (AList.update k v kvs))"
| "set_prop (JArr xs) k v = Inr (JArr xs)"
| "set_prop j k v = Inl TypeError"

definition default_images :: "json option \<Rightarrow> js_error + json" where
  "default_images destination =
     (case to_text destination of Inl e \<Rightarrow> Inl e
      | Inr d \<Rightarrow> (case encodeURIComponent d of Inl e \<Rightarrow> Inl e
          | Inr u \<Rightarrow> Inr (JArr [JStr (''https://source.unsplash.com/800x500/?'' @ u)])))"

definition add_images :: "json option \<Rightarrow> json \<Rightarrow> js_error + json" where
  "add_images destination parsed =
     (case get_prop parsed ''images'' of Inl e \<Rightarrow> Inl e
      | Inr v \<Rightarrow>
          if needs_default v then
            (case default_images destination of Inl e \<Rightarrow> Inl e
             | Inr imgs \<Rightarrow> set_prop parsed ''images'' imgs)
          else Inr parsed)"

definition new_entry :: "env \<Rightarrow> req \<Rightarrow> request_rec \<Rightarrow> json \<Rightarrow> entry" where
  "new_entry E r rq parsed =
     \<lparr>entry_id = new_id E, userHash = hashIp E (getClientIp r), timestamp = new_Date E,
      request = rq, response = parsed\<rparr>"

definition save_entry :: "env \<Rightarrow> req \<Rightarrow> request_rec \<Rightarrow> json \<Rightarrow> state \<Rightarrow> state" where
  "save_entry E r rq parsed s = writeHistory E (readHistory s @ [new_entry E r rq parsed]) s"

definition plan_request :: "(string \<times> json) list \<Rightarrow> request_rec" where
  "plan_request b =
     PlanRequest (map_of b ''destination'') (map_of b ''days'') (map_of b ''budget'')
       (map_of b ''interests'') (map_of b ''group'')"

definition plan_call :: "env \<Rightarrow> string \<Rightarrow> model_call" where
  "plan_call E prompt =
     \<lparr>model = env_or (FORM_MODEL E) ''gpt-3.5-turbo'',
      messages = [(Some (JStr ''user''), prompt)], temperature = 7 / 10, max_tokens = 700\<rparr>"

definition no_response :: http_response where
  "no_response = (502, Error ''No response from model'')"

definition plan_after_model ::
  "env \<Rightarrow> req \<Rightarrow> (string \<times> json) list \<Rightarrow> string \<Rightarrow> state \<Rightarrow> http_response \<times> state" where
  "plan_after_model E r b t s =
     (case plan_parse E t of
        Inl failure \<Rightarrow> (failure, s)
      | Inr parsed \<Rightarrow>
          (case add_images (map_of b ''destination'') parsed of
             Inl e \<Rightarrow> (internal_error, s)
           | Inr parsed' \<Rightarrow> ((200, Plan parsed'), save_entry E r (plan_request b) parsed' s)))"

definition api_plan :: "env \<Rightarrow> req \<Rightarrow> state \<Rightarrow> http_response \<times> state" where
  "api_plan E r s =
     (let bodyKeys = map fst (body r) in
      if \<not> list_all (\<lambda>k. k \<in> set allowed) bodyKeys then ((400, Error ''Invalid fields''), s)
      else
        let b = sanitize_body E (body r) in
        if \<not> truthy_opt (map_of b ''destination'') then ((400, Error ''Destination required''), s)
        else
          (case plan_prompt (map_of b ''destination'') (map_of b ''days'') (map_of b ''group'')
                  (map_of b ''budget'') (map_of b ''interests'') of
             Inl e \<Rightarrow> (internal_error, s)
           | Inr prompt \<Rightarrow>
               (case call_model E (plan_call E prompt) s of
                  (Throws, s1) \<Rightarrow> (internal_error, s1)
                | (Content None, s1) \<Rightarrow> (no_response, s1)
                | (Content (Some t), s1) \<Rightarrow>
                    if t = [] then (no_response, s1) else plan_after_model E r b t s1)))"

section \<open>POST /api/chat\<close>

definition sanitize_message :: "env \<Rightarrow> json \<Rightarrow> js_error + (json option \<times> string)" where
  "sanitize_message E m =
     (case get_prop m ''role'' of Inl e \<Rightarrow> Inl e
      | Inr role \<Rightarrow>
          (case get_prop m ''content'' of Inl e \<Rightarrow> Inl e
           | Inr c \<Rightarrow> Inr (role, case c of Some (JStr t) \<Rightarrow> xss E t | _ \<Rightarrow> [])))"

fun sanitize_messages :: "env \<Rightarrow> json list \<Rightarrow> js_error + (json option \<times> string) list" where
  "sanitize_messages E [] = Inr []"
| "sanitize_messages E (m # ms) =
     (case sanitize_message E m of Inl e \<Rightarrow> Inl e
      | Inr x \<Rightarrow> (case sanitize_messages E ms of Inl e \<Rightarrow> Inl e | Inr xs \<Rightarrow> Inr (x # xs)))"

definition system_text :: string where
  "system_text = ''Eres un asistente de viajes profesional. Si el usuario menciona un destino y pide un itinerario, genera un JSON compacto que pueda guardarse en el historial.''"

definition system_message :: "json option \<Rightarrow> js_error + (json option \<times> string)" where
  "system_message grp =
     (case opt_part '' Contexto del grupo: '' grp [] of Inl e \<Rightarrow> Inl e
      | Inr g \<Rightarrow> Inr (Some (JStr ''system''), system_text @ g))"

definition chat_call :: "env \<Rightarrow> (json option \<times> string) list \<Rightarrow> model_call" where
  "chat_call E conversation =
     \<lparr>model = env_or (CHAT_MODEL E) ''gpt-4o-mini'',
      messages = conversation, temperature = 8 / 10, max_tokens = 900\<rparr>"

text \<open>\<open>sanitized.slice(-1)[0]?.content || ""\<close>\<close>

definition last_content :: "(json option \<times> string) list \<Rightarrow> string" where
  "last_content sanitized = (if sanitized = [] then [] else snd (last sanitized))"

definition chat_after_model ::
  "env \<Rightarrow> req \<Rightarrow> (json option \<times> string) list \<Rightarrow> string \<Rightarrow> state \<Rightarrow> http_response \<times> state" where
  "chat_after_model E r sanitized t s =
     (let parsed = (case JSON_parse E t of None \<Rightarrow> JNull | Some p \<Rightarrow> p) in
      if truthy parsed \<and> truthy_opt (get_prop_opt (Some parsed) ''itinerary'') then
        ((200, Chat t parsed),
         save_entry E r (ChatRequest (map_of (body r) ''group'') (last_content sanitized)) parsed s)
      else ((200, Chat t parsed), s))"

definition api_chat :: "env \<Rightarrow> req \<Rightarrow> state \<Rightarrow> http_response \<times> state" where
  "api_chat E r s =
     (case map_of (body r) ''messages'' of
        Some (JArr ms) \<Rightarrow>
          (case sanitize_messages E ms of
             Inl e \<Rightarrow> (internal_error, s)
           | Inr sanitized \<Rightarrow>
               (case system_message (map_of (body r) ''group'') of
                  Inl e \<Rightarrow> (internal_error, s)
                | Inr system \<Rightarrow>
                    (case call_model E (chat_call E (system # sanitized)) s of
                       (Throws, s1) \<Rightarrow> (internal_error, s1)
                     | (Content None, s1) \<Rightarrow> (no_response, s1)
                     | (Content (Some t), s1) \<Rightarrow>
                         if t = [] then (no_response, s1) else chat_after_model E r sanitized t s1)))
      | _ \<Rightarrow> ((400, Error ''messages array required''), s))"

section \<open>GET /api/history\<close>

text \<open>\<open>req.query.x || d\<close>\<close>

definition query_or :: "string option \<Rightarrow> string \<Rightarrow> string" where
  "query_or v d = (case v of None \<Rightarrow> d | Some x \<Rightarrow> if x = [] then d else x)"

definition effective_page :: "string option \<Rightarrow> jsnum" where
  "effective_page p = Math_max (Num 1) (parseInt (query_or p ''1''))"

definition effective_limit :: "string option \<Rightarrow> jsnum" where
  "effective_limit l = Math_max (Num 1) (Math_min (Num 50) (parseInt (query_or l ''10'')))"

text \<open>
  \<open>.sort((a,b) => new Date(b.timestamp) - new Date(a.timestamp))\<close>: a stable sort,
  newest first.
\<close>

definition newest_first :: "entry list \<Rightarrow> entry list" where
  "newest_first es = sort_key (\<lambda>e. - int (timestamp e)) es"

definition total_pages :: "nat \<Rightarrow> jsnum \<Rightarrow> jsnum" where
  "total_pages n limit = Math_max (Num 1) (Math_ceil (js_div (Num (of_nat n)) limit))"

definition api_history :: "env \<Rightarrow> req \<Rightarrow> state \<Rightarrow> http_response \<times> state" where
  "api_history E r s =
     (let h = hashIp E (getClientIp r);
          page = effective_page (query_page r);
          limit = effective_limit (query_limit r);
          history = newest_first (filter (\<lambda>it. userHash it = h) (readHistory s));
          totalPages = total_pages (length history) limit;
          start = js_mul (js_sub page (Num 1)) limit;
          results = array_slice start (js_add start limit) history
      in ((200, HistoryPage page totalPages (length history) results), s))"

section \<open>DELETE /api/history/:id\<close>

fun findIndex :: "('a \<Rightarrow> bool) \<Rightarrow> 'a list \<Rightarrow> nat option" where
  "findIndex P [] = None"
| "findIndex P (x # xs) = (if P x then Some 0 else map_option Suc (findIndex P xs))"

text \<open>\<open>history.splice(idx, 1)\<close>\<close>

definition splice1 :: "nat \<Rightarrow> 'a list \<Rightarrow> 'a list" where
  "splice1 idx xs = take idx xs @ drop (Suc idx) xs"

definition api_delete :: "env \<Rightarrow> req \<Rightarrow> state \<Rightarrow> http_response \<times> state" where
  "api_delete E r s =
     (let h = hashIp E (getClientIp r);
          history = readHistory s
      in case findIndex (\<lambda>it. entry_id it = params_id r) history of
           None \<Rightarrow> ((404, Error ''Not found''), s)
         | Some idx \<Rightarrow>
             if userHash (history ! idx) \<noteq> h then ((403, Error ''Not authorized''), s)
             else ((200, Success), writeHistory E (splice1 idx history) s))"

section \<open>GET /api/trending\<close>

text \<open>
  \<open>(it.request && (it.request.destination || (it.request.chat && it.response?.summary))) || null\<close>,
  with \<open>None\<close> for every falsy outcome.
\<close>

definition dest_of :: "entry \<Rightarrow> json option" where
  "dest_of it =
     (case request it of
        PlanRequest destination days budget interests grp \<Rightarrow>
          if truthy_opt destination then destination else None
      | ChatRequest grp snippet \<Rightarrow>
          (let summary = get_prop_opt (Some (response it)) ''summary''
           in if truthy_opt summary then summary else None))"

text \<open>\<open>String(dest).toLowerCase().trim().split(",")[0]\<close>\<close>

definition normalize :: "json \<Rightarrow> js_error + string" where
  "normalize dest =
     (case js_String dest of None \<Rightarrow> Inl TypeError
      | Some t \<Rightarrow> Inr (split_comma_first (js_trim (toLowerCase t))))"

text \<open>
  \<open>counts[key] = (counts[key]||0) + 1\<close> on the object \<open>counts\<close>, kept as the list of its
  keys with their counts in the order the keys were first seen, which is the order
  \<open>Object.keys\<close> lists them in. (Keys that are array indices, which JavaScript lists
  first, and the names \<open>Object.prototype\<close> already defines are not told apart here.)
\<close>

definition bump :: "string \<Rightarrow> (string \<times> nat) list \<Rightarrow> (string \<times> nat) list" where
  "bump k counts = AList.update k (case map_of counts k of None \<Rightarrow> 1 | Some c \<Rightarrow> c + 1) counts"

fun count_all :: "entry list \<Rightarrow> (string \<times> nat) list \<Rightarrow> js_error + (string \<times> nat) list" where
  "count_all [] counts = Inr counts"
| "count_all (it # its) counts =
     (case dest_of it of
        None \<Rightarrow> count_all its counts
      | Some dest \<Rightarrow>
          (case normalize dest of Inl e \<Rightarrow> Inl e | Inr k \<Rightarrow> count_all its (bump k counts)))"

text \<open>
  \<open>Object.keys(counts).sort((a,b)=>counts[b]-counts[a]).slice(0,20)\<close> and the rendering
  \<open>{ name: k.charAt(0).toUpperCase()+k.slice(1), tag: k }\<close>.
\<close>

definition top20 :: "(string \<times> nat) list \<Rightarrow> string list" where
  "top20 counts = take 20 (map fst (sort_key (\<lambda>kc. - int (snd kc)) counts))"

definition render :: "string \<Rightarrow> item" where
  "render k = Item (toUpperCase (take 1 k) @ drop 1 k) k"

definition compute_trending :: "state \<Rightarrow> js_error + item list" where
  "compute_trending s =
     (case count_all (readHistory s) [] of Inl e \<Rightarrow> Inl e
      | Inr counts \<Rightarrow> Inr (map render (top20 counts)))"

definition api_trending :: "env \<Rightarrow> req \<Rightarrow> state \<Rightarrow> http_response \<times> state" where
  "api_trending E r s =
     (let today = startOfDayString E in
      case (if trending_date (trendingCache s) = Some today then trending_list (trendingCache s) else None) of
        Some cached \<Rightarrow> ((200, Results cached), s)
      | None \<Rightarrow>
          (case compute_trending s of
             Inl e \<Rightarrow> (internal_error, s)
           | Inr lst \<Rightarrow>
               ((200, Results (take 10 lst)),
                s\<lparr>trendingCache := \<lparr>trending_date = Some today, trending_list = Some lst\<rparr>\<rparr>)))"

section \<open>GET /api/banner\<close>

definition banner_prompt :: string where
  "banner_prompt =
     ''Genera en espa'' @ [CHR 0xC3, CHR 0xB1] @ ''ol una frase corta (m'' @ [CHR 0xC3, CHR 0xA1]
       @ ''x 10-12 palabras), en tono neutro y elegante, sobre viajar o descubrir el mundo. No uses emojis. Devuelve solo la frase.''"

definition banner_fallback :: string where
  "banner_fallback = ''Explora nuevos destinos con confianza y curiosidad.''"

definition banner_call :: "env \<Rightarrow> model_call" where
  "banner_call E =
     \<lparr>model = env_or (CHAT_MODEL E) ''gpt-4o-mini'',
      messages = [(Some (JStr ''user''), banner_prompt)], temperature = 6 / 10, max_tokens = 40\<rparr>"

text \<open>\<open>completion.choices?.[0]?.message?.content?.trim() || fallback\<close>\<close>

definition banner_of :: "string option \<Rightarrow> string" where
  "banner_of c =
     (case c of None \<Rightarrow> banner_fallback
      | Some t \<Rightarrow> if js_trim t = [] then banner_fallback else js_trim t)"

definition banner_hit :: "env \<Rightarrow> state \<Rightarrow> string option" where
  "banner_hit E s =
     (if banner_date (bannerCache s) = Some (startOfDayString E) then
        (case banner_text (bannerCache s) of None \<Rightarrow> None
         | Some t \<Rightarrow> if t = [] then None else Some t)
      else None)"

definition api_banner :: "env \<Rightarrow> req \<Rightarrow> state \<Rightarrow> http_response \<times> state" where
  "api_banner E r s =
     (case banner_hit E s of
        Some cached \<Rightarrow> ((200, Banner cached), s)
      | None \<Rightarrow>
          (case call_model E (banner_call E) s of
             (Throws, s1) \<Rightarrow> ((200, Banner banner_fallback), s1)
           | (Content c, s1) \<Rightarrow>
               ((200, Banner (banner_of c)),
                s1\<lparr>bannerCache := \<lparr>banner_date = Some (startOfDayString E), banner_text = Some (banner_of c)\<rparr>\<rparr>)))"

section \<open>A concrete environment for the examples\<close>

text \<open>
  The examples below run the handlers on concrete requests. \<open>parse_table\<close> lists what
  \<open>JSON.parse\<close> returns on the texts that are valid JSON among those the examples hand
  to it (every other text they use is not valid JSON); \<open>xss\<close> leaves text without markup
  as it is; the stand-in for SHA-256 only has to keep different addresses apart.
\<close>

definition parse_table :: "string \<Rightarrow> json option" where
  \<open>parse_table =
     map_of
       [(''null'', JNull),
        (''[]'', JArr []),
        (''{"summary":"x"}'', JObj [(''summary'', JStr ''x'')]),
        (''{"images":["a.jpg"]}'', JObj [(''images'', JArr [JStr ''a.jpg''])]),
        (''{"itinerary":null}'', JObj [(''itinerary'', JNull)]),
        (''{"itinerary":[]}'', JObj [(''itinerary'', JArr [])])]\<close>

definition demo_env :: env where
  \<open>demo_env =
     \<lparr>xss = (\<lambda>t. t), JSON_parse = parse_table, sha256_hex = (\<lambda>a. ''sha256:'' @ a),
      openai = (\<lambda>c. Content (Some ''{"summary":"x"}'')),
      FORM_MODEL = None, CHAT_MODEL = None,
      Date_now = 1000, new_Date = 1000, start_of_day = 0, random36 = ''0.4fzyo82mvyr'',
      write_ok = True\<rparr>\<close>

definition demo_state :: state where
  "demo_state =
     \<lparr>history_file = Some [],
      bannerCache = \<lparr>banner_date = None, banner_text = None\<rparr>,
      trendingCache = \<lparr>trending_date = None, trending_list = None\<rparr>,
      model_calls = [], writes = []\<rparr>"

definition demo_req :: req where
  "demo_req =
     \<lparr>body = [], x_forwarded_for = None, remoteAddress = Some ''203.0.113.7'',
      query_page = None, query_limit = None, params_id = []\<rparr>"

definition plan_entry :: "string \<Rightarrow> string \<Rightarrow> nat \<Rightarrow> string \<Rightarrow> entry" where
  "plan_entry i h t d =
     \<lparr>entry_id = i, userHash = h, timestamp = t,
      request = PlanRequest (Some (JStr d)) None None None None,
      response = JObj [(''summary'', JStr ''x'')]\<rparr>"

text \<open>
  For comparison with \<open>regex_match\<close>: the substring the specification describes for
  stage two of the parser, the last top-level brace-delimited region that ends the text,
  found by walking back from the final closing brace to the opening brace that balances it.
\<close>

fun match_back :: "string \<Rightarrow> nat \<Rightarrow> string \<Rightarrow> string option" where
  "match_back [] depth acc = None"
| "match_back (c # cs) depth acc =
     (if c = CHR ''}'' then match_back cs (Suc depth) (c # acc)
      else if c = CHR ''{'' then
        (if depth \<le> 1 then Some (c # acc) else match_back cs (depth - 1) (c # acc))
      else match_back cs depth (c # acc))"

definition spec_trailing_object :: "string \<Rightarrow> string option" where
  "spec_trailing_object t =
     (if t \<noteq> [] \<and> last t = CHR ''}'' then match_back (rev t) 0 [] else None)"

text \<open>A history of eleven plan entries with eleven different destinations.\<close>

definition eleven_entries :: "entry list" where
  "eleven_entries =
     map (\<lambda>d. plan_entry d ''sha256:203.0.113.7'' 10 d)
       [''lima'', ''roma'', ''oslo'', ''bali'', ''cusco'', ''kioto'', ''paris'', ''quito'',
        ''tokio'', ''viena'', ''praga'']"

section \<open>Properties\<close>

declare toString36.simps [simp del]

subsection \<open>Validation of a plan request\<close>

lemma map_of_sanitize_body:
  "map_of (sanitize_body E b) k =
     map_option (\<lambda>v. case v of JStr t \<Rightarrow> JStr (xss E (js_trim t)) | _ \<Rightarrow> v) (map_of b k)"
  by (induction b) (auto simp: sanitize_body_def split: json.splits)

lemma js_trim_Nil: "js_trim [] = []"
  by (simp add: js_trim_def)

lemma falsy_stays_falsy:
  assumes "xss E [] = []" and "\<not> truthy_opt (map_of b k)"
  shows "\<not> truthy_opt (map_of (sanitize_body E b) k)"
proof (cases "map_of b k")
  case None
  then show ?thesis by (simp add: map_of_sanitize_body truthy_opt_def)
next
  case (Some v)
  with assms show ?thesis
    by (cases v) (auto simp: map_of_sanitize_body truthy_opt_def js_trim_Nil)
qed

text \<open>
  C3. A plan body with a key outside \<open>destination, days, budget, interests, group\<close> is
  answered 400 "Invalid fields"; a body with allowed keys only and no truthy destination
  (after sanitising, and so also when there was none before, \<open>xss\<close> keeping the empty
  string empty) is answered 400 "Destination required". In both cases the state comes back
  as it was: nothing was sent to the model provider and nothing written. The key check
  comes first, so a body failing both tests gets "Invalid fields".
\<close>

theorem plan_rejects_before_model_call:
  "(\<not> set (map fst (body r)) \<subseteq> set allowed \<longrightarrow>
      api_plan E r s = ((400, Error ''Invalid fields''), s))
   \<and> (set (map fst (body r)) \<subseteq> set allowed
        \<and> \<not> truthy_opt (map_of (sanitize_body E (body r)) ''destination'') \<longrightarrow>
      api_plan E r s = ((400, Error ''Destination required''), s))
   \<and> (set (map fst (body r)) \<subseteq> set allowed \<and> xss E [] = []
        \<and> \<not> truthy_opt (map_of (body r) ''destination'') \<longrightarrow>
      api_plan E r s = ((400, Error ''Destination required''), s))"
proof (intro conjI impI)
  assume "\<not> set (map fst (body r)) \<subseteq> set allowed"
  then have "\<not> list_all (\<lambda>k. k \<in> set allowed) (map fst (body r))"
    by (auto simp: list_all_iff)
  then show "api_plan E r s = ((400, Error ''Invalid fields''), s)"
    by (simp add: api_plan_def)
next
  assume a: "set (map fst (body r)) \<subseteq> set allowed
        \<and> \<not> truthy_opt (map_of (sanitize_body E (body r)) ''destination'')"
  then have "list_all (\<lambda>k. k \<in> set allowed) (map fst (body r))"
    by (auto simp: list_all_iff)
  with a show "api_plan E r s = ((400, Error ''Destination required''), s)"
    by (simp add: api_plan_def Let_def)
next
  assume a: "set (map fst (body r)) \<subseteq> set allowed \<and> xss E [] = []
        \<and> \<not> truthy_opt (map_of (body r) ''destination'')"
  then have k: "list_all (\<lambda>k. k \<in> set allowed) (map fst (body r))"
    by (auto simp: list_all_iff)
  from a have "\<not> truthy_opt (map_of (sanitize_body E (body r)) ''destination'')"
    by (simp add: falsy_stays_falsy)
  with k show "api_plan E r s = ((400, Error ''Destination required''), s)"
    by (simp add: api_plan_def Let_def)
qed

theorem plan_rejects_before_model_call_witness:
  "api_plan demo_env (demo_req\<lparr>body := [(''destination'', JStr ''Tokyo''), (''admin'', JBool True)]\<rparr>) demo_state
     = ((400, Error ''Invalid fields''), demo_state)
   \<and> api_plan demo_env (demo_req\<lparr>body := [(''days'', JStr ''3''), (''destination'', JStr ''   '')]\<rparr>) demo_state
     = ((400, Error ''Destination required''), demo_state)
   \<and> api_plan demo_env (demo_req\<lparr>body := [(''destination'', JNum ''0'')]\<rparr>) demo_state
     = ((400, Error ''Destination required''), demo_state)"
proof -
  let ?r1 = "demo_req\<lparr>body := [(''destination'', JStr ''Tokyo''), (''admin'', JBool True)]\<rparr>"
  let ?r2 = "demo_req\<lparr>body := [(''days'', JStr ''3''), (''destination'', JStr ''   '')]\<rparr>"
  let ?r3 = "demo_req\<lparr>body := [(''destination'', JNum ''0'')]\<rparr>"
  have h1: "\<not> set (map fst (body ?r1)) \<subseteq> set allowed"
    by (simp add: allowed_def)
  have h2: "set (map fst (body ?r2)) \<subseteq> set allowed
            \<and> \<not> truthy_opt (map_of (sanitize_body demo_env (body ?r2)) ''destination'')"
    by (simp add: allowed_def sanitize_body_def demo_env_def truthy_opt_def js_trim_def is_ws_def)
  have h3: "set (map fst (body ?r3)) \<subseteq> set allowed \<and> xss demo_env [] = []
            \<and> \<not> truthy_opt (map_of (body ?r3) ''destination'')"
    by (simp add: allowed_def demo_env_def truthy_opt_def)
  from plan_rejects_before_model_call[of ?r1 demo_env demo_state] h1
  have c1: "api_plan demo_env ?r1 demo_state = ((400, Error ''Invalid fields''), demo_state)"
    by blast
  from plan_rejects_before_model_call[of ?r2 demo_env demo_state] h2
  have c2: "api_plan demo_env ?r2 demo_state = ((400, Error ''Destination required''), demo_state)"
    by blast
  from plan_rejects_before_model_call[of ?r3 demo_env demo_state] h3
  have c3: "api_plan demo_env ?r3 demo_state = ((400, Error ''Destination required''), demo_state)"
    by blast
  from c1 c2 c3 show ?thesis by blast
qed

subsection \<open>Roles in a chat request\<close>

lemma sanitize_message_no_null:
  "m \<noteq> JNull \<Longrightarrow>
   sanitize_message E m =
     Inr (get_prop_opt (Some m) ''role'',
          case get_prop_opt (Some m) ''content'' of Some (JStr t) \<Rightarrow> xss E t | _ \<Rightarrow> [])"
  by (cases m) (simp_all add: sanitize_message_def get_prop_opt_def)

lemma sanitize_messages_no_null:
  "JNull \<notin> set ms \<Longrightarrow>
   sanitize_messages E ms =
     Inr (map (\<lambda>m. (get_prop_opt (Some m) ''role'',
                     case get_prop_opt (Some m) ''content'' of Some (JStr t) \<Rightarrow> xss E t | _ \<Rightarrow> [])) ms)"
  by (induction ms) (auto simp: sanitize_message_no_null)

lemma sanitize_messages_null:
  "JNull \<in> set ms \<Longrightarrow> sanitize_messages E ms = Inl TypeError"
proof (induction ms)
  case Nil
  then show ?case by simp
next
  case (Cons m ms)
  show ?case
  proof (cases "m = JNull")
    case True
    then show ?thesis by (simp add: sanitize_message_def)
  next
    case False
    with Cons have "sanitize_messages E ms = Inl TypeError" by simp
    with False show ?thesis by (simp add: sanitize_message_no_null)
  qed
qed

lemma model_calls_writeHistory: "model_calls (writeHistory E arr s) = model_calls s"
  by (simp add: writeHistory_def Let_def)

lemma model_calls_save_entry: "model_calls (save_entry E r rq p s) = model_calls s"
  by (simp add: save_entry_def model_calls_writeHistory)

lemma model_calls_chat_after_model:
  "model_calls (snd (chat_after_model E r sanitized t s)) = model_calls s"
  by (simp add: chat_after_model_def Let_def model_calls_save_entry)

text \<open>
  C10. When \<open>messages\<close> is an array without a \<open>null\<close> element (any other request is
  answered before the model is reached), the conversation sent to the model provider is
  the fixed system message followed by one message per client message, whose role is the
  client's \<open>role\<close> property exactly as it was received (any JSON value, or \<open>undefined\<close>):
  only the content goes through \<open>xss\<close>. A client message with role \<open>system\<close> is sent
  along with that role.
\<close>

theorem chat_roles_forwarded_verbatim:
  assumes "map_of (body r) ''messages'' = Some (JArr ms)"
    and "JNull \<notin> set ms"
    and "system_message (map_of (body r) ''group'') = Inr sys"
  shows "model_calls (snd (api_chat E r s)) =
           model_calls s @
           [chat_call E (sys # map (\<lambda>m. (get_prop_opt (Some m) ''role'',
               case get_prop_opt (Some m) ''content'' of Some (JStr t) \<Rightarrow> xss E t | _ \<Rightarrow> [])) ms)]
         \<and> fst sys = Some (JStr ''system'')
         \<and> map fst (tl (messages (last (model_calls (snd (api_chat E r s)))))) =
             map (\<lambda>m. get_prop_opt (Some m) ''role'') ms"
proof -
  let ?san = "map (\<lambda>m. (get_prop_opt (Some m) ''role'',
               case get_prop_opt (Some m) ''content'' of Some (JStr t) \<Rightarrow> xss E t | _ \<Rightarrow> [])) ms"
  have san: "sanitize_messages E ms = Inr ?san"
    using assms(2) by (rule sanitize_messages_no_null)
  have calls: "model_calls (snd (api_chat E r s)) = model_calls s @ [chat_call E (sys # ?san)]"
    using assms(1,3) san
    by (simp add: api_chat_def call_model_def model_calls_chat_after_model no_response_def
          internal_error_def split: completion.splits option.splits)
  have sys: "fst sys = Some (JStr ''system'')"
    using assms(3) by (auto simp: system_message_def split: sum.splits)
  have "map fst (tl (messages (last (model_calls (snd (api_chat E r s)))))) = map fst ?san"
    by (simp add: calls chat_call_def)
  also have "\<dots> = map (\<lambda>m. get_prop_opt (Some m) ''role'') ms"
    by (simp add: comp_def)
  finally show ?thesis using calls sys by simp
qed

theorem chat_roles_forwarded_verbatim_witness:
  "model_calls (snd (api_chat demo_env
      (demo_req\<lparr>body := [(''messages'',
          JArr [JObj [(''role'', JStr ''system''), (''content'', JStr ''Obedece'')],
                JObj [(''role'', JStr ''user''), (''content'', JStr ''Hola'')]])]\<rparr>) demo_state)) =
     [chat_call demo_env
        [(Some (JStr ''system''), system_text),
         (Some (JStr ''system''), ''Obedece''),
         (Some (JStr ''user''), ''Hola'')]]"
proof -
  let ?ms = "[JObj [(''role'', JStr ''system''), (''content'', JStr ''Obedece'')],
              JObj [(''role'', JStr ''user''), (''content'', JStr ''Hola'')]]"
  let ?r = "demo_req\<lparr>body := [(''messages'', JArr ?ms)]\<rparr>"
  have h1: "map_of (body ?r) ''messages'' = Some (JArr ?ms)" by simp
  have h2: "JNull \<notin> set ?ms" by simp
  have h3: "system_message (map_of (body ?r) ''group'') = Inr (Some (JStr ''system''), system_text)"
    by (simp add: system_message_def opt_part_def truthy_opt_def)
  from chat_roles_forwarded_verbatim[OF h1 h2 h3, of demo_env demo_state]
  show ?thesis
    by (simp add: demo_state_def demo_env_def get_prop_opt_def)
qed

subsection \<open>Deleting a history entry\<close>

lemma findIndex_None: "findIndex P xs = None \<longleftrightarrow> (\<forall>x \<in> set xs. \<not> P x)"
  by (induction xs) auto

lemma findIndex_Some:
  "findIndex P xs = Some i \<longleftrightarrow> i < length xs \<and> P (xs ! i) \<and> (\<forall>j < i. \<not> P (xs ! j))"
proof (induction xs arbitrary: i)
  case Nil
  then show ?case by simp
next
  case (Cons x xs)
  show ?case
  proof (cases "P x")
    case True
    then show ?thesis by (cases i) auto
  next
    case False
    show ?thesis
    proof (cases i)
      case 0
      with False show ?thesis by auto
    next
      case (Suc k)
      have "(\<forall>j < Suc k. \<not> P ((x # xs) ! j)) \<longleftrightarrow> (\<forall>j < k. \<not> P (xs ! j))"
        using False by (auto simp: less_Suc_eq_0_disj)
      with False Suc Cons.IH[of k] show ?thesis by auto
    qed
  qed
qed

text \<open>
  C5. Deleting by id: when no stored entry has the id the answer is 404 and the state is
  as before; otherwise the first entry with that id decides: when its \<open>userHash\<close> is not
  the requester's hash the answer is 403 and the state is as before (no entry removed,
  \<open>writeHistory\<close> not called); when it is, the answer is success and \<open>writeHistory\<close> is
  called once with the history without that entry, which becomes the file's content
  when the write succeeds.
\<close>

theorem delete_by_id:
  "((\<forall>it \<in> set (readHistory s). entry_id it \<noteq> params_id r) \<longrightarrow>
      api_delete E r s = ((404, Error ''Not found''), s))
   \<and> (i < length (readHistory s) \<and> entry_id (readHistory s ! i) = params_id r
        \<and> (\<forall>j < i. entry_id (readHistory s ! j) \<noteq> params_id r) \<longrightarrow>
        (userHash (readHistory s ! i) \<noteq> hashIp E (getClientIp r) \<longrightarrow>
           api_delete E r s = ((403, Error ''Not authorized''), s))
        \<and> (userHash (readHistory s ! i) = hashIp E (getClientIp r) \<longrightarrow>
           api_delete E r s =
             ((200, Success),
              s\<lparr>writes := writes s @ [take i (readHistory s) @ drop (Suc i) (readHistory s)],
                history_file :=
                  (if write_ok E then Some (take i (readHistory s) @ drop (Suc i) (readHistory s))
                   else history_file s)\<rparr>)))"
proof (intro conjI impI)
  assume "\<forall>it \<in> set (readHistory s). entry_id it \<noteq> params_id r"
  then have "findIndex (\<lambda>it. entry_id it = params_id r) (readHistory s) = None"
    by (simp add: findIndex_None)
  then show "api_delete E r s = ((404, Error ''Not found''), s)"
    by (simp add: api_delete_def)
next
  assume a: "i < length (readHistory s) \<and> entry_id (readHistory s ! i) = params_id r
        \<and> (\<forall>j < i. entry_id (readHistory s ! j) \<noteq> params_id r)"
    and h: "userHash (readHistory s ! i) \<noteq> hashIp E (getClientIp r)"
  from a have "findIndex (\<lambda>it. entry_id it = params_id r) (readHistory s) = Some i"
    by (simp add: findIndex_Some)
  with h show "api_delete E r s = ((403, Error ''Not authorized''), s)"
    by (simp add: api_delete_def)
next
  assume a: "i < length (readHistory s) \<and> entry_id (readHistory s ! i) = params_id r
        \<and> (\<forall>j < i. entry_id (readHistory s ! j) \<noteq> params_id r)"
    and h: "userHash (readHistory s ! i) = hashIp E (getClientIp r)"
  from a have "findIndex (\<lambda>it. entry_id it = params_id r) (readHistory s) = Some i"
    by (simp add: findIndex_Some)
  with h show "api_delete E r s =
             ((200, Success),
              s\<lparr>writes := writes s @ [take i (readHistory s) @ drop (Suc i) (readHistory s)],
                history_file :=
                  (if write_ok E then Some (take i (readHistory s) @ drop (Suc i) (readHistory s))
                   else history_file s)\<rparr>)"
    by (simp add: api_delete_def writeHistory_def splice1_def Let_def)
qed

theorem delete_by_id_witness:
  "api_delete demo_env (demo_req\<lparr>params_id := ''zz''\<rparr>)
      (demo_state\<lparr>history_file := Some [plan_entry ''a1'' ''sha256:203.0.113.7'' 10 ''Tokyo'',
                                          plan_entry ''b2'' ''sha256:198.51.100.9'' 20 ''Lima'']\<rparr>)
     = ((404, Error ''Not found''),
        demo_state\<lparr>history_file := Some [plan_entry ''a1'' ''sha256:203.0.113.7'' 10 ''Tokyo'',
                                          plan_entry ''b2'' ''sha256:198.51.100.9'' 20 ''Lima'']\<rparr>)
   \<and> api_delete demo_env (demo_req\<lparr>params_id := ''b2''\<rparr>)
      (demo_state\<lparr>history_file := Some [plan_entry ''a1'' ''sha256:203.0.113.7'' 10 ''Tokyo'',
                                          plan_entry ''b2'' ''sha256:198.51.100.9'' 20 ''Lima'']\<rparr>)
     = ((403, Error ''Not authorized''),
        demo_state\<lparr>history_file := Some [plan_entry ''a1'' ''sha256:203.0.113.7'' 10 ''Tokyo'',
                                          plan_entry ''b2'' ''sha256:198.51.100.9'' 20 ''Lima'']\<rparr>)
   \<and> api_delete demo_env (demo_req\<lparr>params_id := ''a1''\<rparr>)
      (demo_state\<lparr>history_file := Some [plan_entry ''a1'' ''sha256:203.0.113.7'' 10 ''Tokyo'',
                                          plan_entry ''b2'' ''sha256:198.51.100.9'' 20 ''Lima'']\<rparr>)
     = ((200, Success),
        demo_state\<lparr>history_file := Some [plan_entry ''b2'' ''sha256:198.51.100.9'' 20 ''Lima''],
                   writes := [[plan_entry ''b2'' ''sha256:198.51.100.9'' 20 ''Lima'']]\<rparr>)"
proof -
  let ?a = "plan_entry ''a1'' ''sha256:203.0.113.7'' 10 ''Tokyo''"
  let ?b = "plan_entry ''b2'' ''sha256:198.51.100.9'' 20 ''Lima''"
  let ?s = "demo_state\<lparr>history_file := Some [?a, ?b]\<rparr>"
  have rd: "readHistory ?s = [?a, ?b]" by (simp add: readHistory_def)
  have ids: "entry_id ?a = ''a1''" "entry_id ?b = ''b2''"
    and hs: "userHash ?a = ''sha256:203.0.113.7''" "userHash ?b = ''sha256:198.51.100.9''"
    by (simp_all add: plan_entry_def)
  have me: "\<And>i. hashIp demo_env (getClientIp (demo_req\<lparr>params_id := i\<rparr>)) = ''sha256:203.0.113.7''"
    by (simp add: hashIp_def getClientIp_def demo_req_def demo_env_def)
  have n1: "\<forall>it \<in> set (readHistory ?s). entry_id it \<noteq> params_id (demo_req\<lparr>params_id := ''zz''\<rparr>)"
    by (simp add: rd ids)
  have n2: "(1::nat) < length (readHistory ?s)
      \<and> entry_id (readHistory ?s ! 1) = params_id (demo_req\<lparr>params_id := ''b2''\<rparr>)
      \<and> (\<forall>j < (1::nat). entry_id (readHistory ?s ! j) \<noteq> params_id (demo_req\<lparr>params_id := ''b2''\<rparr>))"
    by (simp add: rd ids)
  have n2': "userHash (readHistory ?s ! 1) \<noteq> hashIp demo_env (getClientIp (demo_req\<lparr>params_id := ''b2''\<rparr>))"
    by (simp add: rd hs me)
  have n3: "(0::nat) < length (readHistory ?s)
      \<and> entry_id (readHistory ?s ! 0) = params_id (demo_req\<lparr>params_id := ''a1''\<rparr>)
      \<and> (\<forall>j < (0::nat). entry_id (readHistory ?s ! j) \<noteq> params_id (demo_req\<lparr>params_id := ''a1''\<rparr>))"
    by (simp add: rd ids)
  have n3': "userHash (readHistory ?s ! 0) = hashIp demo_env (getClientIp (demo_req\<lparr>params_id := ''a1''\<rparr>))"
    by (simp add: rd hs me)
  from delete_by_id[where s = ?s and r = "demo_req\<lparr>params_id := ''zz''\<rparr>" and E = demo_env and i = 0] n1
  have c1: "api_delete demo_env (demo_req\<lparr>params_id := ''zz''\<rparr>) ?s = ((404, Error ''Not found''), ?s)"
    by blast
  from delete_by_id[where s = ?s and r = "demo_req\<lparr>params_id := ''b2''\<rparr>" and E = demo_env and i = 1] n2 n2'
  have c2: "api_delete demo_env (demo_req\<lparr>params_id := ''b2''\<rparr>) ?s = ((403, Error ''Not authorized''), ?s)"
    by blast
  from delete_by_id[where s = ?s and r = "demo_req\<lparr>params_id := ''a1''\<rparr>" and E = demo_env and i = 0] n3 n3'
  have c3: "api_delete demo_env (demo_req\<lparr>params_id := ''a1''\<rparr>) ?s =
      ((200, Success),
       ?s\<lparr>writes := writes ?s @ [take 0 (readHistory ?s) @ drop (Suc 0) (readHistory ?s)],
          history_file :=
            (if write_ok demo_env then Some (take 0 (readHistory ?s) @ drop (Suc 0) (readHistory ?s))
             else history_file ?s)\<rparr>)"
    by blast
  have c3': "api_delete demo_env (demo_req\<lparr>params_id := ''a1''\<rparr>) ?s =
      ((200, Success), demo_state\<lparr>history_file := Some [?b], writes := [[?b]]\<rparr>)"
    unfolding c3 by (simp add: readHistory_def demo_env_def demo_state_def)
  from c1 c2 c3' show ?thesis by blast
qed

subsection \<open>Parsing the model's text in the plan flow\<close>

lemma regex_match_eq:
  "regex_match t =
     (if CHR ''{'' \<in> set t \<and> last t = CHR ''}'' then Some (dropWhile (\<lambda>c. c \<noteq> CHR ''{'') t)
      else None)"
proof (induction t)
  case Nil
  then show ?case by simp
next
  case (Cons c cs)
  show ?case
  proof (cases "c = CHR ''{''")
    case True
    then show ?thesis by (cases "cs = []") (use Cons in auto)
  next
    case False
    then show ?thesis by (cases "cs = []") (use Cons in auto)
  qed
qed

text \<open>
  C2, as the code has it. The whole text is parsed first and its value used when that
  succeeds. Otherwise, when the text contains an opening brace and its last character is
  a closing brace, the text from its first opening brace to its end is parsed (so
  commentary without an opening brace, followed by a trailing object, yields that object);
  a failure of this second parse, or a text of another shape, is answered 500 with the
  original text as \<open>raw\<close> and the state as it was.
\<close>

theorem plan_parse_stages:
  "(JSON_parse E t = Some p \<longrightarrow> plan_parse E t = Inr p)
   \<and> (JSON_parse E t = None \<longrightarrow>
        plan_parse E t =
          (if CHR ''{'' \<in> set t \<and> last t = CHR ''}'' then
             (case JSON_parse E (dropWhile (\<lambda>c. c \<noteq> CHR ''{'') t) of
                Some q \<Rightarrow> Inr q
              | None \<Rightarrow> Inl (500, ErrorRaw ''Model output not valid JSON'' t))
           else Inl (500, ErrorRaw ''Model output not valid JSON'' t)))
   \<and> (JSON_parse E (pre @ CHR ''{'' # obj) = None \<and> CHR ''{'' \<notin> set pre
        \<and> last (CHR ''{'' # obj) = CHR ''}'' \<and> JSON_parse E (CHR ''{'' # obj) = Some p \<longrightarrow>
        plan_parse E (pre @ CHR ''{'' # obj) = Inr p)
   \<and> (plan_parse E t = Inl failure \<longrightarrow>
        failure = (500, ErrorRaw ''Model output not valid JSON'' t)
        \<and> plan_after_model E r b t s = (failure, s))"
proof (intro conjI impI)
  assume "JSON_parse E t = Some p"
  then show "plan_parse E t = Inr p" by (simp add: plan_parse_def)
next
  assume "JSON_parse E t = None"
  then show "plan_parse E t =
          (if CHR ''{'' \<in> set t \<and> last t = CHR ''}'' then
             (case JSON_parse E (dropWhile (\<lambda>c. c \<noteq> CHR ''{'') t) of
                Some q \<Rightarrow> Inr q
              | None \<Rightarrow> Inl (500, ErrorRaw ''Model output not valid JSON'' t))
           else Inl (500, ErrorRaw ''Model output not valid JSON'' t))"
    by (auto simp: plan_parse_def regex_match_eq not_valid_json_def split: option.splits)
next
  assume a: "JSON_parse E (pre @ CHR ''{'' # obj) = None \<and> CHR ''{'' \<notin> set pre
        \<and> last (CHR ''{'' # obj) = CHR ''}'' \<and> JSON_parse E (CHR ''{'' # obj) = Some p"
  then have "dropWhile (\<lambda>c. c \<noteq> CHR ''{'') (pre @ CHR ''{'' # obj) = CHR ''{'' # obj"
    by (auto simp: dropWhile_append3)
  moreover from a have "last (pre @ CHR ''{'' # obj) = CHR ''}''" by simp
  ultimately show "plan_parse E (pre @ CHR ''{'' # obj) = Inr p"
    using a by (simp add: plan_parse_def regex_match_eq)
next
  assume f: "plan_parse E t = Inl failure"
  then show "failure = (500, ErrorRaw ''Model output not valid JSON'' t)"
    by (auto simp: plan_parse_def not_valid_json_def split: option.splits)
next
  assume f: "plan_parse E t = Inl failure"
  then show "plan_after_model E r b t s = (failure, s)"
    by (simp add: plan_after_model_def)
qed

theorem plan_parse_stages_witness:
  \<open>plan_parse demo_env ''{"summary":"x"}'' = Inr (JObj [(''summary'', JStr ''x'')])
   \<and> plan_parse demo_env ''Listo: {"summary":"x"}'' = Inr (JObj [(''summary'', JStr ''x'')])
   \<and> plan_after_model demo_env demo_req [] ''No puedo ayudar'' demo_state
       = ((500, ErrorRaw ''Model output not valid JSON'' ''No puedo ayudar''), demo_state)\<close>
proof -
  let ?p = "JObj [(''summary'', JStr ''x'')]"
  have h1: \<open>JSON_parse demo_env ''{"summary":"x"}'' = Some ?p\<close>
    by (simp add: demo_env_def parse_table_def)
  have h3: \<open>JSON_parse demo_env (''Listo: '' @ CHR ''{'' # ''"summary":"x"}'') = None
      \<and> CHR ''{'' \<notin> set ''Listo: ''
      \<and> last (CHR ''{'' # ''"summary":"x"}'') = CHR ''}''
      \<and> JSON_parse demo_env (CHR ''{'' # ''"summary":"x"}'') = Some ?p\<close>
    by (simp add: demo_env_def parse_table_def)
  have h4: \<open>plan_parse demo_env ''No puedo ayudar''
      = Inl (500, ErrorRaw ''Model output not valid JSON'' ''No puedo ayudar'')\<close>
    by (simp add: plan_parse_def demo_env_def parse_table_def not_valid_json_def)
  from plan_parse_stages[where E = demo_env and t = \<open>''{"summary":"x"}''\<close> and p = ?p] h1
  have c1: \<open>plan_parse demo_env ''{"summary":"x"}'' = Inr ?p\<close> by blast
  from plan_parse_stages[where E = demo_env and pre = "''Listo: ''" and obj = \<open>''"summary":"x"}''\<close> and p = ?p] h3
  have c2: \<open>plan_parse demo_env (''Listo: '' @ CHR ''{'' # ''"summary":"x"}'') = Inr ?p\<close> by blast
  from plan_parse_stages[where E = demo_env and t = "''No puedo ayudar''"
      and failure = "(500, ErrorRaw ''Model output not valid JSON'' ''No puedo ayudar'')"
      and r = demo_req and b = "[]" and s = demo_state] h4
  have c3: "plan_after_model demo_env demo_req [] ''No puedo ayudar'' demo_state
       = ((500, ErrorRaw ''Model output not valid JSON'' ''No puedo ayudar''), demo_state)"
    by blast
  from c1 c2 c3 show ?thesis by simp
qed

text \<open>
  The claim as written fails on commentary that itself has a brace: the region the
  specification describes is the trailing object, which is valid JSON, but the server
  parses from the first brace and answers 500.
\<close>

theorem trailing_object_not_extracted:
  \<open>spec_trailing_object ''Plan {draft}: {"summary":"x"}'' = Some ''{"summary":"x"}''
   \<and> JSON_parse demo_env ''{"summary":"x"}'' = Some (JObj [(''summary'', JStr ''x'')])
   \<and> regex_match ''Plan {draft}: {"summary":"x"}'' = Some ''{draft}: {"summary":"x"}''
   \<and> plan_parse demo_env ''Plan {draft}: {"summary":"x"}''
       = Inl (500, ErrorRaw ''Model output not valid JSON'' ''Plan {draft}: {"summary":"x"}'')\<close>
  by (simp add: spec_trailing_object_def plan_parse_def demo_env_def parse_table_def not_valid_json_def)

subsection \<open>Images in the plan response\<close>

lemma plan_prompt_to_text:
  "plan_prompt d dy g bu i = Inr prompt \<Longrightarrow> \<exists>t. to_text d = Inr t"
  by (auto simp: plan_prompt_def split: sum.splits)

lemma api_plan_reaches_parse:
  assumes "set (map fst (body r)) \<subseteq> set allowed"
    and "truthy_opt (map_of (sanitize_body E (body r)) ''destination'')"
    and "plan_prompt (map_of (sanitize_body E (body r)) ''destination'')
           (map_of (sanitize_body E (body r)) ''days'') (map_of (sanitize_body E (body r)) ''group'')
           (map_of (sanitize_body E (body r)) ''budget'')
           (map_of (sanitize_body E (body r)) ''interests'') = Inr prompt"
    and "openai E (plan_call E prompt) = Content (Some t)"
    and "t \<noteq> []"
  shows "api_plan E r s =
           plan_after_model E r (sanitize_body E (body r)) t
             (s\<lparr>model_calls := model_calls s @ [plan_call E prompt]\<rparr>)"
proof -
  from assms(1) have "list_all (\<lambda>k. k \<in> set allowed) (map fst (body r))"
    by (auto simp: list_all_iff)
  with assms(2-5) show ?thesis
    by (simp add: api_plan_def Let_def call_model_def)
qed

lemma add_images_object:
  "add_images d (JObj kvs) =
     (if needs_default (map_of kvs ''images'') then
        (case default_images d of Inl e \<Rightarrow> Inl e
         | Inr imgs \<Rightarrow> Inr (JObj (AList.update ''images'' imgs kvs)))
      else Inr (JObj kvs))"
  by (simp add: add_images_def split: sum.splits)

text \<open>
  C1, as the code has it. Take a plan request that passes validation, whose prompt can be
  built, and whose model output is non-empty and parses (directly or through the fallback)
  to a JSON object. When that object already has a non-empty \<open>images\<close> array the response
  is 200 with the object unchanged. Otherwise, provided the destination can be
  URL-encoded, the response is 200 with the object whose \<open>images\<close> is the one-element
  array holding \<open>https://source.unsplash.com/800x500/?\<close> followed by the encoded
  destination. Either way \<open>images\<close> in the response is a non-empty array.
\<close>

theorem plan_images_guarantee:
  assumes "set (map fst (body r)) \<subseteq> set allowed"
    and "b = sanitize_body E (body r)"
    and "truthy_opt (map_of b ''destination'')"
    and "plan_prompt (map_of b ''destination'') (map_of b ''days'') (map_of b ''group'')
           (map_of b ''budget'') (map_of b ''interests'') = Inr prompt"
    and "openai E (plan_call E prompt) = Content (Some t)"
    and "t \<noteq> []"
    and "plan_parse E t = Inr (JObj kvs)"
  shows "(\<not> needs_default (map_of kvs ''images'') \<longrightarrow>
            fst (api_plan E r s) = (200, Plan (JObj kvs)))
       \<and> (needs_default (map_of kvs ''images'') \<and> to_text (map_of b ''destination'') = Inr d
            \<and> encodeURIComponent d = Inr u \<longrightarrow>
            fst (api_plan E r s) =
              (200, Plan (JObj (AList.update ''images''
                 (JArr [JStr (''https://source.unsplash.com/800x500/?'' @ u)]) kvs)))
            \<and> map_of (AList.update ''images''
                 (JArr [JStr (''https://source.unsplash.com/800x500/?'' @ u)]) kvs) ''images''
                = Some (JArr [JStr (''https://source.unsplash.com/800x500/?'' @ u)]))"
proof -
  let ?s1 = "s\<lparr>model_calls := model_calls s @ [plan_call E prompt]\<rparr>"
  have run: "api_plan E r s = plan_after_model E r b t ?s1"
    using assms(1-6) by (simp add: api_plan_reaches_parse)
  show ?thesis
  proof (intro conjI impI)
    assume "\<not> needs_default (map_of kvs ''images'')"
    then show "fst (api_plan E r s) = (200, Plan (JObj kvs))"
      using assms(7) by (simp add: run plan_after_model_def add_images_object)
  next
    assume a: "needs_default (map_of kvs ''images'') \<and> to_text (map_of b ''destination'') = Inr d
            \<and> encodeURIComponent d = Inr u"
    then have "default_images (map_of b ''destination'')
        = Inr (JArr [JStr (''https://source.unsplash.com/800x500/?'' @ u)])"
      by (simp add: default_images_def)
    with a show "fst (api_plan E r s) =
              (200, Plan (JObj (AList.update ''images''
                 (JArr [JStr (''https://source.unsplash.com/800x500/?'' @ u)]) kvs)))"
      using assms(7) by (simp add: run plan_after_model_def add_images_object)
  next
    show "map_of (AList.update ''images''
                 (JArr [JStr (''https://source.unsplash.com/800x500/?'' @ u)]) kvs) ''images''
                = Some (JArr [JStr (''https://source.unsplash.com/800x500/?'' @ u)])"
      by (simp add: AList.update_conv')
  qed
qed


theorem plan_images_guarantee_witness:
  \<open>fst (api_plan demo_env
      (demo_req\<lparr>body := [(''destination'', JStr '' Tokyo, Japan'' ), (''days'', JStr ''3'')]\<rparr>) demo_state)
     = (200, Plan (JObj [(''summary'', JStr ''x''),
          (''images'', JArr [JStr ''https://source.unsplash.com/800x500/?Tokyo%2C%20Japan''])]))
   \<and> fst (api_plan (demo_env\<lparr>openai := (\<lambda>c. Content (Some ''{"images":["a.jpg"]}''))\<rparr>)
      (demo_req\<lparr>body := [(''destination'', JStr '' Tokyo, Japan''), (''days'', JStr ''3'')]\<rparr>) demo_state)
     = (200, Plan (JObj [(''images'', JArr [JStr ''a.jpg''])]))\<close>
proof -
  let ?r = "demo_req\<lparr>body := [(''destination'', JStr '' Tokyo, Japan''), (''days'', JStr ''3'')]\<rparr>"
  let ?b = "[(''destination'', JStr ''Tokyo, Japan''), (''days'', JStr ''3'')]"
  let ?E2 = \<open>demo_env\<lparr>openai := (\<lambda>c. Content (Some ''{"images":["a.jpg"]}''))\<rparr>\<close>
  let ?prompt = "prompt_head @ ''Tokyo, Japan'' @ [CHR 0x22] @ ('' de '' @ ''3'' @ '' d'' @ [CHR 0xC3, CHR 0xAD] @ ''as'')
      @ [] @ [] @ [] @ prompt_tail"
  have keys: "set (map fst (body ?r)) \<subseteq> set allowed"
    by (simp add: allowed_def)
  have b1: "?b = sanitize_body demo_env (body ?r)"
    by (simp add: sanitize_body_def demo_env_def js_trim_def is_ws_def)
  have b2: "?b = sanitize_body ?E2 (body ?r)"
    by (simp add: sanitize_body_def demo_env_def js_trim_def is_ws_def)
  have dest: "truthy_opt (map_of ?b ''destination'')"
    by (simp add: truthy_opt_def)
  have prompt: "plan_prompt (map_of ?b ''destination'') (map_of ?b ''days'') (map_of ?b ''group'')
           (map_of ?b ''budget'') (map_of ?b ''interests'') = Inr ?prompt"
    by (simp add: plan_prompt_def to_text_def opt_part_def truthy_opt_def)
  have reply1: \<open>openai demo_env (plan_call demo_env ?prompt) = Content (Some ''{"summary":"x"}'')\<close>
    by (simp add: demo_env_def)
  have reply2: \<open>openai ?E2 (plan_call ?E2 ?prompt) = Content (Some ''{"images":["a.jpg"]}'')\<close>
    by simp
  have parsed1: \<open>plan_parse demo_env ''{"summary":"x"}'' = Inr (JObj [(''summary'', JStr ''x'')])\<close>
    by (simp add: plan_parse_def demo_env_def parse_table_def)
  have parsed2: \<open>plan_parse ?E2 ''{"images":["a.jpg"]}'' = Inr (JObj [(''images'', JArr [JStr ''a.jpg''])])\<close>
    by (simp add: plan_parse_def demo_env_def parse_table_def)
  have nd1: "needs_default (map_of [(''summary'', JStr ''x'')] ''images'')
      \<and> to_text (map_of ?b ''destination'') = Inr ''Tokyo, Japan''
      \<and> encodeURIComponent ''Tokyo, Japan'' = Inr ''Tokyo%2C%20Japan''"
    by (simp add: needs_default_def to_text_def encodeURIComponent_def unreserved_def pct_def hex_digit_def)
  have nd2: "\<not> needs_default (map_of [(''images'', JArr [JStr ''a.jpg''])] ''images'')"
    by (simp add: needs_default_def)
  from plan_images_guarantee[OF keys b1 dest prompt reply1 _ parsed1,
      where s = demo_state and d = "''Tokyo, Japan''" and u = "''Tokyo%2C%20Japan''"] nd1
  have c1: "fst (api_plan demo_env ?r demo_state) =
      (200, Plan (JObj (AList.update ''images''
         (JArr [JStr (''https://source.unsplash.com/800x500/?'' @ ''Tokyo%2C%20Japan'')])
         [(''summary'', JStr ''x'')])))"
    by simp
  from plan_images_guarantee[OF keys b2 dest prompt reply2 _ parsed2, where s = demo_state] nd2
  have c2: "fst (api_plan ?E2 ?r demo_state) = (200, Plan (JObj [(''images'', JArr [JStr ''a.jpg''])]))"
    by simp
  from c1 c2 show ?thesis by simp
qed

text \<open>
  The claim as written fails when the model's text is valid JSON but not an object
  (\<open>null\<close>: the read of \<open>parsed.images\<close> throws and the answer is 500; \<open>[]\<close>: the answer
  is the array itself, with no \<open>images\<close> in it), and when the destination holds an
  unpaired surrogate, on which \<open>encodeURIComponent\<close> throws.
\<close>

theorem plan_images_missing:
  \<open>plan_parse demo_env ''null'' = Inr JNull
   \<and> fst (api_plan (demo_env\<lparr>openai := (\<lambda>c. Content (Some ''null''))\<rparr>)
        (demo_req\<lparr>body := [(''destination'', JStr ''Tokyo'')]\<rparr>) demo_state)
       = (500, Error ''Internal server error'')
   \<and> plan_parse demo_env ''[]'' = Inr (JArr [])
   \<and> fst (api_plan (demo_env\<lparr>openai := (\<lambda>c. Content (Some ''[]''))\<rparr>)
        (demo_req\<lparr>body := [(''destination'', JStr ''Tokyo'')]\<rparr>) demo_state)
       = (200, Plan (JArr []))
   \<and> fst (api_plan demo_env
        (demo_req\<lparr>body := [(''destination'', JStr [CHR 0xED, CHR 0xA0, CHR 0x80])]\<rparr>) demo_state)
       = (500, Error ''Internal server error'')\<close>
  by (simp add: api_plan_def allowed_def sanitize_body_def demo_env_def demo_req_def js_trim_def
      is_ws_def truthy_opt_def plan_prompt_def to_text_def opt_part_def call_model_def
      plan_after_model_def plan_parse_def parse_table_def add_images_def needs_default_def
      default_images_def encodeURIComponent_def internal_error_def Let_def)

subsection \<open>The chat reply and its history entry\<close>

lemma itinerary_truthy_only_on_objects:
  "truthy_opt (get_prop_opt (Some p) k) \<Longrightarrow> truthy p"
  by (cases p) (simp_all add: get_prop_opt_def truthy_opt_def)

lemma last_content_map:
  "last_content (map (\<lambda>m. (f m, g m)) ms) = (if ms = [] then [] else g (last ms))"
  by (simp add: last_content_def last_map)

lemma api_chat_reaches_reply:
  assumes "map_of (body r) ''messages'' = Some (JArr ms)"
    and "sanitize_messages E ms = Inr sanitized"
    and "system_message (map_of (body r) ''group'') = Inr sys"
    and "openai E (chat_call E (sys # sanitized)) = Content (Some t)"
    and "t \<noteq> []"
  shows "api_chat E r s =
           chat_after_model E r sanitized t
             (s\<lparr>model_calls := model_calls s @ [chat_call E (sys # sanitized)]\<rparr>)"
  using assms by (simp add: api_chat_def call_model_def)

text \<open>
  C6, as the code has it. Take a chat request that reaches the model and gets a non-empty
  text back. The answer is 200 with that text and the value parsed from it, \<open>null\<close> when
  it is not JSON (which is not an error, and writes nothing). \<open>writeHistory\<close> is called,
  once, exactly when the parsed value has a truthy \<open>itinerary\<close> property, with the
  history read from the file and one entry added at its end, which becomes the file's
  content when the write succeeds. That entry has the request
  \<open>{chat: true, group, snippet}\<close> with the group as received and, as snippet, the
  sanitised content of the last message of the request (empty when there is no message or
  its content is not a string).
\<close>

theorem chat_reply_and_history:
  assumes "map_of (body r) ''messages'' = Some (JArr ms)"
    and "JNull \<notin> set ms"
    and "system_message (map_of (body r) ''group'') = Inr sys"
    and "openai E (chat_call E (sys # map (\<lambda>m. (get_prop_opt (Some m) ''role'',
           case get_prop_opt (Some m) ''content'' of Some (JStr c) \<Rightarrow> xss E c | _ \<Rightarrow> [])) ms))
         = Content (Some t)"
    and "t \<noteq> []"
  shows "fst (api_chat E r s) = (200, Chat t (case JSON_parse E t of None \<Rightarrow> JNull | Some p \<Rightarrow> p))
       \<and> (JSON_parse E t = None \<longrightarrow>
            fst (api_chat E r s) = (200, Chat t JNull) \<and> writes (snd (api_chat E r s)) = writes s
            \<and> history_file (snd (api_chat E r s)) = history_file s)
       \<and> writes (snd (api_chat E r s)) =
           (if truthy_opt (get_prop_opt (Some (case JSON_parse E t of None \<Rightarrow> JNull | Some p \<Rightarrow> p)) ''itinerary'')
            then writes s @
              [readHistory s @
                [new_entry E r
                   (ChatRequest (map_of (body r) ''group'')
                      (if ms = [] then []
                       else (case get_prop_opt (Some (last ms)) ''content'' of
                               Some (JStr c) \<Rightarrow> xss E c | _ \<Rightarrow> [])))
                   (case JSON_parse E t of None \<Rightarrow> JNull | Some p \<Rightarrow> p)]]
            else writes s)
       \<and> history_file (snd (api_chat E r s)) =
           (if truthy_opt (get_prop_opt (Some (case JSON_parse E t of None \<Rightarrow> JNull | Some p \<Rightarrow> p)) ''itinerary'')
               \<and> write_ok E
            then Some (readHistory s @
                [new_entry E r
                   (ChatRequest (map_of (body r) ''group'')
                      (if ms = [] then []
                       else (case get_prop_opt (Some (last ms)) ''content'' of
                               Some (JStr c) \<Rightarrow> xss E c | _ \<Rightarrow> [])))
                   (case JSON_parse E t of None \<Rightarrow> JNull | Some p \<Rightarrow> p)])
            else history_file s)"
proof -
  let ?san = "map (\<lambda>m. (get_prop_opt (Some m) ''role'',
           case get_prop_opt (Some m) ''content'' of Some (JStr c) \<Rightarrow> xss E c | _ \<Rightarrow> [])) ms"
  let ?s1 = "s\<lparr>model_calls := model_calls s @ [chat_call E (sys # ?san)]\<rparr>"
  let ?p = "case JSON_parse E t of None \<Rightarrow> JNull | Some p \<Rightarrow> p"
  have san: "sanitize_messages E ms = Inr ?san"
    using assms(2) by (rule sanitize_messages_no_null)
  have run: "api_chat E r s = chat_after_model E r ?san t ?s1"
    using assms(1) san assms(3,4,5) by (rule api_chat_reaches_reply)
  have reply: "fst (api_chat E r s) = (200, Chat t ?p)"
    by (simp add: run chat_after_model_def Let_def)
  have cond: "(truthy ?p \<and> truthy_opt (get_prop_opt (Some ?p) ''itinerary''))
      = truthy_opt (get_prop_opt (Some ?p) ''itinerary'')"
    using itinerary_truthy_only_on_objects by blast
  have snip: "last_content ?san =
      (if ms = [] then []
       else (case get_prop_opt (Some (last ms)) ''content'' of Some (JStr c) \<Rightarrow> xss E c | _ \<Rightarrow> []))"
    by (rule last_content_map)
  have w: "writes (snd (api_chat E r s)) =
           (if truthy_opt (get_prop_opt (Some ?p) ''itinerary'')
            then writes s @
              [readHistory s @
                [new_entry E r
                   (ChatRequest (map_of (body r) ''group'')
                      (if ms = [] then []
                       else (case get_prop_opt (Some (last ms)) ''content'' of
                               Some (JStr c) \<Rightarrow> xss E c | _ \<Rightarrow> [])))
                   ?p]]
            else writes s)"
    unfolding run chat_after_model_def Let_def cond snip
    by (simp add: save_entry_def writeHistory_def readHistory_def Let_def)
  have none: "JSON_parse E t = None \<longrightarrow>
            fst (api_chat E r s) = (200, Chat t JNull) \<and> writes (snd (api_chat E r s)) = writes s
            \<and> history_file (snd (api_chat E r s)) = history_file s"
    by (simp add: run chat_after_model_def Let_def)
  have f: "history_file (snd (api_chat E r s)) =
           (if truthy_opt (get_prop_opt (Some ?p) ''itinerary'') \<and> write_ok E
            then Some (readHistory s @
                [new_entry E r
                   (ChatRequest (map_of (body r) ''group'')
                      (if ms = [] then []
                       else (case get_prop_opt (Some (last ms)) ''content'' of
                               Some (JStr c) \<Rightarrow> xss E c | _ \<Rightarrow> [])))
                   ?p])
            else history_file s)"
    unfolding run chat_after_model_def Let_def cond snip
    by (simp add: save_entry_def writeHistory_def readHistory_def Let_def)
  from reply none w f show ?thesis by blast
qed


theorem chat_reply_and_history_witness:
  \<open>fst (api_chat (demo_env\<lparr>openai := (\<lambda>c. Content (Some ''Hola''))\<rparr>)
      (demo_req\<lparr>body := [(''messages'', JArr [JObj [(''role'', JStr ''user''), (''content'', JStr ''Plan para Lima'')]]),
                          (''group'', JStr ''familia'')]\<rparr>) demo_state)
     = (200, Chat ''Hola'' JNull)
   \<and> writes (snd (api_chat (demo_env\<lparr>openai := (\<lambda>c. Content (Some ''Hola''))\<rparr>)
      (demo_req\<lparr>body := [(''messages'', JArr [JObj [(''role'', JStr ''user''), (''content'', JStr ''Plan para Lima'')]]),
                          (''group'', JStr ''familia'')]\<rparr>) demo_state))
     = []
   \<and> map request (concat (writes (snd (api_chat (demo_env\<lparr>openai := (\<lambda>c. Content (Some ''{"itinerary":[]}''))\<rparr>)
      (demo_req\<lparr>body := [(''messages'', JArr [JObj [(''role'', JStr ''user''), (''content'', JStr ''Plan para Lima'')]]),
                          (''group'', JStr ''familia'')]\<rparr>) demo_state))))
     = [ChatRequest (Some (JStr ''familia'')) ''Plan para Lima'']\<close>
proof -
  let ?ms = "[JObj [(''role'', JStr ''user''), (''content'', JStr ''Plan para Lima'')]]"
  let ?r = "demo_req\<lparr>body := [(''messages'', JArr ?ms), (''group'', JStr ''familia'')]\<rparr>"
  let ?sys = "(Some (JStr ''system''), system_text @ '' Contexto del grupo: familia'')"
  let ?E1 = \<open>demo_env\<lparr>openai := (\<lambda>c. Content (Some ''Hola''))\<rparr>\<close>
  let ?E2 = \<open>demo_env\<lparr>openai := (\<lambda>c. Content (Some ''{"itinerary":[]}''))\<rparr>\<close>
  have h1: "map_of (body ?r) ''messages'' = Some (JArr ?ms)" by simp
  have h2: "JNull \<notin> set ?ms" by simp
  have h3: "system_message (map_of (body ?r) ''group'') = Inr ?sys"
    by (simp add: system_message_def opt_part_def truthy_opt_def to_text_def)
  have p1: "JSON_parse ?E1 ''Hola'' = None"
    by (simp add: demo_env_def parse_table_def)
  have p2: \<open>JSON_parse ?E2 ''{"itinerary":[]}'' = Some (JObj [(''itinerary'', JArr [])])\<close>
    by (simp add: demo_env_def parse_table_def)
  from chat_reply_and_history[OF h1 h2 h3, where E = ?E1 and t = "''Hola''" and s = demo_state] p1
  have c1: "fst (api_chat ?E1 ?r demo_state) = (200, Chat ''Hola'' JNull)
      \<and> writes (snd (api_chat ?E1 ?r demo_state)) = []"
    by (simp add: demo_state_def)
  from chat_reply_and_history[OF h1 h2 h3, where E = ?E2 and t = \<open>''{"itinerary":[]}''\<close> and s = demo_state] p2
  have c2: "map request (concat (writes (snd (api_chat ?E2 ?r demo_state))))
      = [ChatRequest (Some (JStr ''familia'')) ''Plan para Lima'']"
    by (simp add: demo_state_def demo_env_def get_prop_opt_def truthy_opt_def readHistory_def new_entry_def)
  from c1 c2 show ?thesis by simp
qed

text \<open>
  The claim as written fails in two places. A parsed payload can contain an
  \<open>itinerary\<close> field and still add no entry (the field is tested for truthiness, and here
  it is \<open>null\<close>); and the snippet is the content of the last message whoever sent it, here
  an assistant message, not the user's most recent one.
\<close>

theorem chat_history_mismatch:
  \<open>JSON_parse demo_env ''{"itinerary":null}'' = Some (JObj [(''itinerary'', JNull)])
   \<and> api_chat (demo_env\<lparr>openai := (\<lambda>c. Content (Some ''{"itinerary":null}''))\<rparr>)
        (demo_req\<lparr>body := [(''messages'', JArr [JObj [(''role'', JStr ''user''), (''content'', JStr ''Plan para Lima'')]])]\<rparr>)
        demo_state
      = ((200, Chat ''{"itinerary":null}'' (JObj [(''itinerary'', JNull)])),
         demo_state\<lparr>model_calls :=
           [chat_call demo_env [(Some (JStr ''system''), system_text), (Some (JStr ''user''), ''Plan para Lima'')]]\<rparr>)
   \<and> map request (readHistory (snd
        (api_chat (demo_env\<lparr>openai := (\<lambda>c. Content (Some ''{"itinerary":[]}''))\<rparr>)
          (demo_req\<lparr>body := [(''messages'',
             JArr [JObj [(''role'', JStr ''user''), (''content'', JStr ''Plan para Lima'')],
                   JObj [(''role'', JStr ''assistant''), (''content'', JStr ''Claro'')]])]\<rparr>)
          demo_state)))
      = [ChatRequest None ''Claro'']\<close>
  by (simp add: api_chat_def demo_env_def demo_req_def demo_state_def parse_table_def
      sanitize_message_def system_message_def opt_part_def truthy_opt_def call_model_def
      chat_after_model_def get_prop_opt_def chat_call_def env_or_def save_entry_def
      writeHistory_def readHistory_def new_entry_def last_content_def Let_def)

subsection \<open>Identifiers of history entries\<close>

lemma digit36_inj:
  assumes "a < 36" and "b < 36" and "digit36 a = digit36 b"
  shows "a = b"
proof -
  have d: "distinct ''0123456789abcdefghijklmnopqrstuvwxyz''" by simp
  have l: "length ''0123456789abcdefghijklmnopqrstuvwxyz'' = 36" by simp
  from assms show ?thesis
    unfolding digit36_def using nth_eq_iff_index_eq[OF d, of a b] l by simp
qed

lemma digit36_not_dash:
  assumes "d < 36"
  shows "digit36 d \<noteq> CHR ''-''"
proof -
  have "length ''0123456789abcdefghijklmnopqrstuvwxyz'' = 36" by simp
  with assms have "digit36 d \<in> set ''0123456789abcdefghijklmnopqrstuvwxyz''"
    unfolding digit36_def by (metis nth_mem)
  moreover have "CHR ''-'' \<notin> set ''0123456789abcdefghijklmnopqrstuvwxyz''" by simp
  ultimately show ?thesis by metis
qed

lemma toString36_not_Nil: "toString36 n \<noteq> []"
  by (subst toString36.simps) simp

lemma last_toString36: "last (toString36 n) = digit36 (n mod 36)"
  by (subst toString36.simps) simp

lemma butlast_toString36:
  "butlast (toString36 n) = (if n < 36 then [] else toString36 (n div 36))"
  by (subst toString36.simps) simp

lemma toString36_no_dash: "CHR ''-'' \<notin> set (toString36 n)"
proof (induction n rule: toString36.induct)
  case (1 n)
  show ?case
  proof (cases "n < 36")
    case True
    then show ?thesis
      using digit36_not_dash[of n] by (subst toString36.simps) auto
  next
    case False
    have "digit36 (n mod 36) \<noteq> CHR ''-''" by (simp add: digit36_not_dash)
    with False 1 show ?thesis
      by (subst toString36.simps) auto
  qed
qed

lemma toString36_inj: "toString36 m = toString36 n \<Longrightarrow> m = n"
proof (induction n arbitrary: m rule: toString36.induct)
  case (1 n)
  from 1(2) have "last (toString36 m) = last (toString36 n)" by simp
  then have "digit36 (m mod 36) = digit36 (n mod 36)" by (simp add: last_toString36)
  then have md: "m mod 36 = n mod 36" by (simp add: digit36_inj)
  from 1(2) have bl: "butlast (toString36 m) = butlast (toString36 n)" by simp
  show ?case
  proof (cases "n < 36")
    case True
    with bl have "m < 36"
      by (auto simp: butlast_toString36 toString36_not_Nil split: if_splits)
    with True md show ?thesis by simp
  next
    case False
    with bl have m: "\<not> m < 36"
      using toString36_not_Nil[of "n div 36"] by (auto simp: butlast_toString36 split: if_splits)
    with False bl have "toString36 (m div 36) = toString36 (n div 36)"
      by (simp add: butlast_toString36)
    with False 1(1) have "m div 36 = n div 36" by simp
    with md show ?thesis by (metis div_mult_mod_eq)
  qed
qed

lemma separator_split:
  assumes "c \<notin> set xs" and "c \<notin> set ys"
  shows "xs @ c # x = ys @ c # y \<longleftrightarrow> xs = ys \<and> x = y"
proof
  assume eq: "xs @ c # x = ys @ c # y"
  have "takeWhile (\<lambda>a. a \<noteq> c) (xs @ c # x) = xs"
    using assms(1) by (auto simp: takeWhile_tail)
  moreover have "takeWhile (\<lambda>a. a \<noteq> c) (ys @ c # y) = ys"
    using assms(2) by (auto simp: takeWhile_tail)
  ultimately have "xs = ys" using eq by simp
  with eq show "xs = ys \<and> x = y" by simp
next
  assume "xs = ys \<and> x = y"
  then show "xs @ c # x = ys @ c # y" by simp
qed

text \<open>
  C9, as the code has it. Both flows take the id of a new entry from the millisecond clock
  and a random draw, and nothing checks it against the ids already stored. Two entries
  get the same id exactly when \<open>Date.now()\<close> read the same millisecond for both and
  \<open>Math.random().toString(36).slice(2,8)\<close> gave the same characters; when the clock
  readings differ, or those characters differ, the ids differ.
\<close>

theorem entry_ids_equal_iff:
  "entry_id (new_entry E1 r1 q1 p1) = entry_id (new_entry E2 r2 q2 p2)
     \<longleftrightarrow> Date_now E1 = Date_now E2
         \<and> str_slice 2 8 (random36 E1) = str_slice 2 8 (random36 E2)"
proof -
  have "entry_id (new_entry E1 r1 q1 p1) = entry_id (new_entry E2 r2 q2 p2)
     \<longleftrightarrow> toString36 (Date_now E1) @ CHR ''-'' # str_slice 2 8 (random36 E1)
         = toString36 (Date_now E2) @ CHR ''-'' # str_slice 2 8 (random36 E2)"
    by (simp add: new_entry_def new_id_def)
  also have "\<dots> \<longleftrightarrow> toString36 (Date_now E1) = toString36 (Date_now E2)
         \<and> str_slice 2 8 (random36 E1) = str_slice 2 8 (random36 E2)"
    by (rule separator_split) (rule toString36_no_dash)+
  also have "\<dots> \<longleftrightarrow> Date_now E1 = Date_now E2
         \<and> str_slice 2 8 (random36 E1) = str_slice 2 8 (random36 E2)"
    using toString36_inj by auto
  finally show ?thesis .
qed

theorem entry_ids_equal_iff_witness:
  "entry_id (new_entry demo_env demo_req (ChatRequest None ''a'') JNull)
     \<noteq> entry_id (new_entry (demo_env\<lparr>Date_now := 1001\<rparr>) demo_req (ChatRequest None ''a'') JNull)
   \<and> entry_id (new_entry demo_env demo_req (ChatRequest None ''a'') JNull)
     \<noteq> entry_id (new_entry (demo_env\<lparr>random36 := ''0.9k2''\<rparr>) demo_req (ChatRequest None ''a'') JNull)"
  using entry_ids_equal_iff[of demo_env demo_req "ChatRequest None ''a''" JNull
          "demo_env\<lparr>Date_now := 1001\<rparr>" demo_req "ChatRequest None ''a''" JNull]
        entry_ids_equal_iff[of demo_env demo_req "ChatRequest None ''a''" JNull
          "demo_env\<lparr>random36 := ''0.9k2''\<rparr>" demo_req "ChatRequest None ''a''" JNull]
  by (simp add: demo_env_def str_slice_def)

text \<open>
  The claim as written fails: a plan request and a chat request served in the same
  millisecond with the same random characters leave two different entries with one id in
  the store.
\<close>

theorem same_id_twice:
  \<open>map entry_id (readHistory (snd
      (api_chat (demo_env\<lparr>openai := (\<lambda>c. Content (Some ''{"itinerary":[]}''))\<rparr>)
         (demo_req\<lparr>body := [(''messages'', JArr [JObj [(''role'', JStr ''user''), (''content'', JStr ''Plan para Lima'')]])]\<rparr>)
         (snd (api_plan demo_env (demo_req\<lparr>body := [(''destination'', JStr ''Tokyo'')]\<rparr>) demo_state)))))
     = [''rs-4fzyo8'', ''rs-4fzyo8'']
   \<and> map request (readHistory (snd
      (api_chat (demo_env\<lparr>openai := (\<lambda>c. Content (Some ''{"itinerary":[]}''))\<rparr>)
         (demo_req\<lparr>body := [(''messages'', JArr [JObj [(''role'', JStr ''user''), (''content'', JStr ''Plan para Lima'')]])]\<rparr>)
         (snd (api_plan demo_env (demo_req\<lparr>body := [(''destination'', JStr ''Tokyo'')]\<rparr>) demo_state)))))
     = [PlanRequest (Some (JStr ''Tokyo'')) None None None None, ChatRequest None ''Plan para Lima'']\<close>
proof -
  have t: "toString36 1000 = ''rs''"
    by (simp add: toString36.simps digit36_def)
  have p: \<open>snd (api_plan demo_env (demo_req\<lparr>body := [(''destination'', JStr ''Tokyo'')]\<rparr>) demo_state)
      = demo_state
         \<lparr>model_calls := [plan_call demo_env (prompt_head @ ''Tokyo'' @ [CHR 0x22] @ prompt_tail)],
          writes := [[new_entry demo_env (demo_req\<lparr>body := [(''destination'', JStr ''Tokyo'')]\<rparr>)
                        (PlanRequest (Some (JStr ''Tokyo'')) None None None None)
                        (JObj [(''summary'', JStr ''x''),
                           (''images'', JArr [JStr ''https://source.unsplash.com/800x500/?Tokyo''])])]],
          history_file := Some [new_entry demo_env (demo_req\<lparr>body := [(''destination'', JStr ''Tokyo'')]\<rparr>)
                        (PlanRequest (Some (JStr ''Tokyo'')) None None None None)
                        (JObj [(''summary'', JStr ''x''),
                           (''images'', JArr [JStr ''https://source.unsplash.com/800x500/?Tokyo''])])]\<rparr>\<close>
    by (simp add: api_plan_def allowed_def sanitize_body_def demo_env_def demo_state_def js_trim_def
      is_ws_def truthy_opt_def plan_prompt_def to_text_def opt_part_def call_model_def
      plan_after_model_def plan_parse_def parse_table_def add_images_def needs_default_def
      default_images_def encodeURIComponent_def unreserved_def save_entry_def writeHistory_def
      readHistory_def plan_request_def Let_def)
  show ?thesis
    unfolding p
    by (simp add: api_chat_def demo_env_def demo_req_def demo_state_def parse_table_def
      sanitize_message_def system_message_def opt_part_def truthy_opt_def call_model_def
      chat_after_model_def get_prop_opt_def save_entry_def
      writeHistory_def readHistory_def new_entry_def last_content_def new_id_def t str_slice_def Let_def)
qed

subsection \<open>Pagination of the history\<close>

lemma parseInt_cases: "parseInt t = NaN \<or> (\<exists>z::int. parseInt t = Num (of_int z))"
proof (cases "parseInt t")
  case NaN
  then show ?thesis by simp
next
  case (Num x)
  then obtain n :: nat where "x = of_nat n \<or> x = - of_nat n"
    by (auto simp: parseInt_def Let_def split: option.splits if_splits)
  then have "x = of_int (int n) \<or> x = of_int (- int n)" by simp
  with Num show ?thesis by blast
qed

lemma effective_limit_cases:
  "(parseInt (query_or l ''10'') = NaN \<and> effective_limit l = NaN)
   \<or> (\<exists>k::int. effective_limit l = Num (of_int k) \<and> 1 \<le> k \<and> k \<le> 50)"
proof -
  from parseInt_cases[of "query_or l ''10''"] show ?thesis
  proof
    assume "parseInt (query_or l ''10'') = NaN"
    then show ?thesis by (simp add: effective_limit_def)
  next
    assume "\<exists>z::int. parseInt (query_or l ''10'') = Num (of_int z)"
    then obtain z :: int where z: "parseInt (query_or l ''10'') = Num (of_int z)" by blast
    have "effective_limit l = Num (of_int (max 1 (min 50 z)))"
      by (simp add: effective_limit_def z max_def min_def)
    moreover have "1 \<le> max 1 (min 50 z) \<and> max 1 (min 50 z) \<le> 50" by simp
    ultimately show ?thesis by blast
  qed
qed

lemma effective_page_cases:
  "(parseInt (query_or p ''1'') = NaN \<and> effective_page p = NaN)
   \<or> (\<exists>k::int. effective_page p = Num (of_int k) \<and> 1 \<le> k)"
proof -
  from parseInt_cases[of "query_or p ''1''"] show ?thesis
  proof
    assume "parseInt (query_or p ''1'') = NaN"
    then show ?thesis by (simp add: effective_page_def)
  next
    assume "\<exists>z::int. parseInt (query_or p ''1'') = Num (of_int z)"
    then obtain z :: int where z: "parseInt (query_or p ''1'') = Num (of_int z)" by blast
    have "effective_page p = Num (of_int (max 1 z))"
      by (simp add: effective_page_def z max_def)
    moreover have "1 \<le> max 1 z" by simp
    ultimately show ?thesis by blast
  qed
qed

lemma total_pages_numeric:
  assumes "1 \<le> k"
  shows "total_pages n (Num (of_int k)) = Num (of_int (max 1 \<lceil>(of_nat n :: rat) / of_int k\<rceil>))"
  using assms by (simp add: total_pages_def max_def)

text \<open>
  C4 at an input where it fails. For \<open>GET /api/history?limit=abc\<close> the limit is
  \<open>NaN\<close>: \<open>parseInt\<close> finds no digit, and \<open>Math.min\<close> and \<open>Math.max\<close> hand \<open>NaN\<close> on. So
  are the page count and both slice bounds, and the answer is an empty page whatever the
  history holds (\<open>NaN\<close> is written as \<open>null\<close> in the JSON sent). A page parameter without
  digits gives the page \<open>NaN\<close> in the same way.
\<close>

theorem history_limit_not_a_number:
  "effective_limit (Some ''abc'') = NaN
   \<and> effective_page (Some ''abc'') = NaN
   \<and> api_history E (r\<lparr>query_page := None, query_limit := Some ''abc''\<rparr>) s =
       ((200, HistoryPage (Num 1) NaN
          (length (filter (\<lambda>it. userHash it = hashIp E (getClientIp r)) (readHistory s))) []), s)"
proof -
  have p: "parseInt ''abc'' = NaN"
    by (simp add: parseInt_def parse_digits_def is_digit_def digit_val_def is_ws_def)
  have l: "effective_limit (Some ''abc'') = NaN"
    by (simp add: effective_limit_def query_or_def p)
  have g: "effective_page (Some ''abc'') = NaN"
    by (simp add: effective_page_def query_or_def p)
  have o: "parseInt ''1'' = Num 1"
    by (simp add: parseInt_def parse_digits_def is_digit_def digit_val_def is_ws_def digits_value_def)
  have pg: "effective_page None = Num 1"
    by (simp add: effective_page_def query_or_def o)
  have ip: "getClientIp (r\<lparr>query_page := None, query_limit := Some ''abc''\<rparr>) = getClientIp r"
    by (simp add: getClientIp_def split: option.splits)
  have "api_history E (r\<lparr>query_page := None, query_limit := Some ''abc''\<rparr>) s =
       ((200, HistoryPage (Num 1) NaN
          (length (filter (\<lambda>it. userHash it = hashIp E (getClientIp r)) (readHistory s))) []), s)"
    by (simp add: api_history_def Let_def l pg ip total_pages_def array_slice_def to_integer_def
        rel_index_def newest_first_def)
  with l g show ?thesis by simp
qed

subsection \<open>Trending destinations\<close>

lemma top20_length: "length (top20 counts) \<le> 20"
  by (simp add: top20_def)

lemma compute_trending_length:
  "compute_trending s = Inr lst \<Longrightarrow> length lst \<le> 20"
  by (auto simp: compute_trending_def top20_length split: sum.splits)

lemma trending_miss_at_most_ten:
  assumes "\<not> (trending_date (trendingCache s) = Some (startOfDayString E)
              \<and> trending_list (trendingCache s) \<noteq> None)"
    and "api_trending E r s = ((200, Results l), s')"
  shows "length l \<le> 10"
  using assms
  by (auto simp: api_trending_def Let_def internal_error_def split: sum.splits if_splits option.splits)

text \<open>
  C7 at an input where it fails. With eleven different destinations in the history, the
  first request of the day answers with ten items and caches all eleven; the next request
  of that day answers from the cache with all eleven. (With twenty or more destinations
  the second answer has twenty.)
\<close>

theorem trending_cache_hit_exposes_eleven:
  "fst (api_trending demo_env demo_req (demo_state\<lparr>history_file := Some eleven_entries\<rparr>))
     = (200, Results (map render
         [''lima'', ''roma'', ''oslo'', ''bali'', ''cusco'', ''kioto'', ''paris'', ''quito'',
          ''tokio'', ''viena'']))
   \<and> fst (api_trending demo_env demo_req
        (snd (api_trending demo_env demo_req (demo_state\<lparr>history_file := Some eleven_entries\<rparr>))))
     = (200, Results (map render
         [''lima'', ''roma'', ''oslo'', ''bali'', ''cusco'', ''kioto'', ''paris'', ''quito'',
          ''tokio'', ''viena'', ''praga'']))"
proof -
  have c: "count_all eleven_entries [] =
      Inr [(''lima'', 1), (''roma'', 1), (''oslo'', 1), (''bali'', 1), (''cusco'', 1), (''kioto'', 1),
           (''paris'', 1), (''quito'', 1), (''tokio'', 1), (''viena'', 1), (''praga'', 1)]"
    by (simp add: eleven_entries_def plan_entry_def dest_of_def truthy_opt_def normalize_def
        toLowerCase_def lower_char_def js_trim_def is_ws_def split_comma_first_def bump_def)
  have k: "compute_trending (demo_state\<lparr>history_file := Some eleven_entries\<rparr>)
      = Inr (map render [''lima'', ''roma'', ''oslo'', ''bali'', ''cusco'', ''kioto'', ''paris'', ''quito'',
          ''tokio'', ''viena'', ''praga''])"
    by (simp add: compute_trending_def readHistory_def c top20_def)
  have first: "api_trending demo_env demo_req (demo_state\<lparr>history_file := Some eleven_entries\<rparr>)
      = ((200, Results (map render [''lima'', ''roma'', ''oslo'', ''bali'', ''cusco'', ''kioto'', ''paris'', ''quito'',
          ''tokio'', ''viena''])),
         demo_state\<lparr>history_file := Some eleven_entries,
           trendingCache := \<lparr>trending_date = Some 0,
             trending_list = Some (map render [''lima'', ''roma'', ''oslo'', ''bali'', ''cusco'', ''kioto'',
               ''paris'', ''quito'', ''tokio'', ''viena'', ''praga''])\<rparr>\<rparr>)"
    unfolding api_trending_def k
    by (simp add: demo_state_def demo_env_def startOfDayString_def)
  show ?thesis
    unfolding first
    by (simp add: api_trending_def demo_env_def startOfDayString_def)
qed

subsection \<open>The daily caches\<close>

lemma banner_of_not_Nil: "banner_of c \<noteq> []"
  by (simp add: banner_of_def banner_fallback_def split: option.splits)

text \<open>
  C8, as the code has it. Banner: when the cache carries today's key and a non-empty text,
  that text is the answer and the state is untouched (no model call). Otherwise the model
  is called once; when the call returns, the text (its trimmed content, or the fixed
  phrase when that is empty) is stored under today's key and is the answer, and any later
  request of the same day gets the same text from the cache, the state untouched; when the
  call throws, the answer is the fixed phrase and the cache is left as it was. Trending:
  when the cache carries today's key and a list, the request leaves the state untouched
  and its answer does not depend on the history file (which is not scanned again);
  otherwise the list is computed once from the
  history and stored under today's key, its first ten items are the answer, and a later
  request of the same day leaves the state untouched.
\<close>

theorem day_caches:
  "(banner_hit E s = Some cached \<longrightarrow> api_banner E r s = ((200, Banner cached), s))
   \<and> (banner_hit E s = None \<and> openai E (banner_call E) = Content c \<longrightarrow>
        api_banner E r s =
          ((200, Banner (banner_of c)),
           s\<lparr>model_calls := model_calls s @ [banner_call E],
             bannerCache := \<lparr>banner_date = Some (startOfDayString E), banner_text = Some (banner_of c)\<rparr>\<rparr>)
        \<and> (startOfDayString E' = startOfDayString E \<longrightarrow>
             api_banner E' r' (snd (api_banner E r s)) = ((200, Banner (banner_of c)), snd (api_banner E r s))))
   \<and> (banner_hit E s = None \<and> openai E (banner_call E) = Throws \<longrightarrow>
        api_banner E r s =
          ((200, Banner banner_fallback), s\<lparr>model_calls := model_calls s @ [banner_call E]\<rparr>))
   \<and> (trending_date (trendingCache s) = Some (startOfDayString E)
        \<and> trending_list (trendingCache s) = Some lst \<longrightarrow>
        snd (api_trending E r s) = s
        \<and> fst (api_trending E r (s\<lparr>history_file := hf\<rparr>)) = fst (api_trending E r s))
   \<and> (\<not> (trending_date (trendingCache s) = Some (startOfDayString E)
           \<and> trending_list (trendingCache s) \<noteq> None)
        \<and> compute_trending s = Inr lst \<longrightarrow>
        api_trending E r s =
          ((200, Results (take 10 lst)),
           s\<lparr>trendingCache := \<lparr>trending_date = Some (startOfDayString E), trending_list = Some lst\<rparr>\<rparr>)
        \<and> (startOfDayString E' = startOfDayString E \<longrightarrow>
             snd (api_trending E' r' (snd (api_trending E r s))) = snd (api_trending E r s)))"
proof (intro conjI impI)
  assume "banner_hit E s = Some cached"
  then show "api_banner E r s = ((200, Banner cached), s)"
    by (simp add: api_banner_def)
next
  assume a: "banner_hit E s = None \<and> openai E (banner_call E) = Content c"
  then show first: "api_banner E r s =
          ((200, Banner (banner_of c)),
           s\<lparr>model_calls := model_calls s @ [banner_call E],
             bannerCache := \<lparr>banner_date = Some (startOfDayString E), banner_text = Some (banner_of c)\<rparr>\<rparr>)"
    by (simp add: api_banner_def call_model_def)
  assume d: "startOfDayString E' = startOfDayString E"
  have "banner_hit E' (snd (api_banner E r s)) = Some (banner_of c)"
    unfolding first snd_conv using d banner_of_not_Nil[of c] by (simp add: banner_hit_def)
  then show "api_banner E' r' (snd (api_banner E r s)) = ((200, Banner (banner_of c)), snd (api_banner E r s))"
    by (simp add: api_banner_def)
next
  assume "banner_hit E s = None \<and> openai E (banner_call E) = Throws"
  then show "api_banner E r s =
          ((200, Banner banner_fallback), s\<lparr>model_calls := model_calls s @ [banner_call E]\<rparr>)"
    by (simp add: api_banner_def call_model_def)
next
  assume "trending_date (trendingCache s) = Some (startOfDayString E)
        \<and> trending_list (trendingCache s) = Some lst"
  then show "snd (api_trending E r s) = s"
    and "fst (api_trending E r (s\<lparr>history_file := hf\<rparr>)) = fst (api_trending E r s)"
    by (simp_all add: api_trending_def)
next
  assume a: "\<not> (trending_date (trendingCache s) = Some (startOfDayString E)
           \<and> trending_list (trendingCache s) \<noteq> None)
        \<and> compute_trending s = Inr lst"
  then show first: "api_trending E r s =
          ((200, Results (take 10 lst)),
           s\<lparr>trendingCache := \<lparr>trending_date = Some (startOfDayString E), trending_list = Some lst\<rparr>\<rparr>)"
    by (auto simp: api_trending_def Let_def)
  assume d: "startOfDayString E' = startOfDayString E"
  show "snd (api_trending E' r' (snd (api_trending E r s))) = snd (api_trending E r s)"
    unfolding first snd_conv using d by (simp add: api_trending_def Let_def)
qed


theorem day_caches_witness:
  "api_banner (demo_env\<lparr>openai := (\<lambda>c. Content (Some ''  Viaja ligero. ''))\<rparr>) demo_req demo_state
     = ((200, Banner ''Viaja ligero.''),
        demo_state\<lparr>model_calls := [banner_call demo_env],
          bannerCache := \<lparr>banner_date = Some 0, banner_text = Some ''Viaja ligero.''\<rparr>\<rparr>)
   \<and> fst (api_banner (demo_env\<lparr>openai := (\<lambda>c. Throws)\<rparr>) demo_req
        (snd (api_banner (demo_env\<lparr>openai := (\<lambda>c. Content (Some ''  Viaja ligero. ''))\<rparr>) demo_req demo_state)))
     = (200, Banner ''Viaja ligero.'')
   \<and> api_trending demo_env demo_req
        (demo_state\<lparr>history_file := Some [plan_entry ''a1'' ''h'' 10 ''Lima, Peru'', plan_entry ''b2'' ''h'' 20 ''LIMA'']\<rparr>)
     = ((200, Results [Item ''Lima'' ''lima'']),
        demo_state\<lparr>history_file := Some [plan_entry ''a1'' ''h'' 10 ''Lima, Peru'', plan_entry ''b2'' ''h'' 20 ''LIMA''],
          trendingCache := \<lparr>trending_date = Some 0, trending_list = Some [Item ''Lima'' ''lima'']\<rparr>\<rparr>)"
proof -
  let ?E = "demo_env\<lparr>openai := (\<lambda>c. Content (Some ''  Viaja ligero. ''))\<rparr>"
  let ?E' = "demo_env\<lparr>openai := (\<lambda>c. Throws)\<rparr>"
  let ?s = "demo_state\<lparr>history_file := Some [plan_entry ''a1'' ''h'' 10 ''Lima, Peru'', plan_entry ''b2'' ''h'' 20 ''LIMA'']\<rparr>"
  have b: "banner_of (Some ''  Viaja ligero. '') = ''Viaja ligero.''"
    by (simp add: banner_of_def js_trim_def is_ws_def)
  have h1: "banner_hit ?E demo_state = None \<and> openai ?E (banner_call ?E) = Content (Some ''  Viaja ligero. '')"
    by (simp add: banner_hit_def demo_state_def)
  have d: "startOfDayString ?E' = startOfDayString ?E"
    by (simp add: startOfDayString_def)
  from day_caches[where E = ?E and s = demo_state and c = "Some ''  Viaja ligero. ''" and E' = ?E'
      and r = demo_req and r' = demo_req] h1 d
  have c1: "api_banner ?E demo_req demo_state =
          ((200, Banner (banner_of (Some ''  Viaja ligero. ''))),
           demo_state\<lparr>model_calls := model_calls demo_state @ [banner_call ?E],
             bannerCache := \<lparr>banner_date = Some (startOfDayString ?E),
               banner_text = Some (banner_of (Some ''  Viaja ligero. ''))\<rparr>\<rparr>)"
    and c2: "api_banner ?E' demo_req (snd (api_banner ?E demo_req demo_state))
         = ((200, Banner (banner_of (Some ''  Viaja ligero. ''))), snd (api_banner ?E demo_req demo_state))"
    by blast+
  have k: "compute_trending ?s = Inr [Item ''Lima'' ''lima'']"
    by (simp add: compute_trending_def readHistory_def plan_entry_def dest_of_def truthy_opt_def
        normalize_def toLowerCase_def lower_char_def js_trim_def is_ws_def split_comma_first_def
        bump_def top20_def render_def toUpperCase_def upper_char_def)
  have h2: "\<not> (trending_date (trendingCache ?s) = Some (startOfDayString demo_env)
           \<and> trending_list (trendingCache ?s) \<noteq> None)"
    by (simp add: demo_state_def)
  from day_caches[where E = demo_env and s = ?s and lst = "[Item ''Lima'' ''lima'']" and r = demo_req] h2 k
  have c3: "api_trending demo_env demo_req ?s =
          ((200, Results (take 10 [Item ''Lima'' ''lima''])),
           ?s\<lparr>trendingCache := \<lparr>trending_date = Some (startOfDayString demo_env),
              trending_list = Some [Item ''Lima'' ''lima'']\<rparr>\<rparr>)"
    by blast
  have e1: "banner_call ?E = banner_call demo_env"
    by (simp add: banner_call_def)
  have e2: "startOfDayString ?E = 0" "startOfDayString demo_env = 0"
    by (simp_all add: startOfDayString_def demo_env_def)
  have m: "model_calls demo_state = []"
    by (simp add: demo_state_def)
  from c1 have c1': "api_banner ?E demo_req demo_state
     = ((200, Banner ''Viaja ligero.''),
        demo_state\<lparr>model_calls := [banner_call demo_env],
          bannerCache := \<lparr>banner_date = Some 0, banner_text = Some ''Viaja ligero.''\<rparr>\<rparr>)"
    by (simp only: b e1 e2 m append_Nil)
  from c2 have c2': "fst (api_banner ?E' demo_req (snd (api_banner ?E demo_req demo_state)))
     = (200, Banner ''Viaja ligero.'')"
    by (simp only: b fst_conv)
  from c3 have c3': "api_trending demo_env demo_req ?s
     = ((200, Results [Item ''Lima'' ''lima'']),
        ?s\<lparr>trendingCache := \<lparr>trending_date = Some 0, trending_list = Some [Item ''Lima'' ''lima'']\<rparr>\<rparr>)"
    by (simp add: e2)
  from c1' c2' c3' show ?thesis by simp
qed

text \<open>
  The claim as written fails for the banner when the model call throws on a cache miss:
  the fixed phrase is the answer but nothing is stored, so the next request of the same
  day calls the model again and can answer with another text.
\<close>

theorem banner_not_stored_when_call_throws:
  "api_banner (demo_env\<lparr>openai := (\<lambda>c. Throws)\<rparr>) demo_req demo_state
     = ((200, Banner ''Explora nuevos destinos con confianza y curiosidad.''),
        demo_state\<lparr>model_calls := [banner_call demo_env]\<rparr>)
   \<and> api_banner (demo_env\<lparr>openai := (\<lambda>c. Content (Some ''Viaja ligero.''))\<rparr>) demo_req
        (demo_state\<lparr>model_calls := [banner_call demo_env]\<rparr>)
     = ((200, Banner ''Viaja ligero.''),
        demo_state\<lparr>model_calls := [banner_call demo_env, banner_call demo_env],
          bannerCache := \<lparr>banner_date = Some 0, banner_text = Some ''Viaja ligero.''\<rparr>\<rparr>)"
  by (simp add: api_banner_def banner_hit_def demo_state_def demo_env_def startOfDayString_def
      call_model_def banner_call_def banner_of_def js_trim_def is_ws_def banner_fallback_def)

end
